theory Spec2Isabelle
  imports Main
begin

section \<open>Errors\<close>

text \<open>
  Go \<^verbatim>\<open>error\<close> values as the code builds and inspects them.  \<open>Wrapped msg e\<close> is
  \<^verbatim>\<open>fmt.Errorf("msg: %w", e)\<close>; \<open>GoogleAPIError code msg\<close> is a
  \<^verbatim>\<open>*googleapi.Error\<close> with HTTP status \<open>code\<close>; \<open>ErrorString\<close> is every other
  error (\<^verbatim>\<open>fmt.Errorf\<close> without \<^verbatim>\<open>%w\<close>, an I/O error, ...).
\<close>

datatype error =
    ErrorString string
  | GoogleAPIError nat string
  | Wrapped string error

fun errorText :: "error \<Rightarrow> string" where
  "errorText (ErrorString s) = s"
| "errorText (GoogleAPIError code s) = s"
| "errorText (Wrapped msg e) = msg @ '': '' @ errorText e"

definition StatusConflict :: nat where
  "StatusConflict = 409"

text \<open>\<^verbatim>\<open>errors.As(err, &apiErr)\<close>: the first \<^verbatim>\<open>*googleapi.Error\<close> on the unwrap chain.\<close>

fun errorsAs :: "error \<Rightarrow> nat option" where
  "errorsAs (ErrorString s) = None"
| "errorsAs (GoogleAPIError code s) = Some code"
| "errorsAs (Wrapped msg e) = errorsAs e"

definition isAlreadyExistsError :: "error option \<Rightarrow> bool" where
  "isAlreadyExistsError err =
     (case err of
        None \<Rightarrow> False
      | Some e \<Rightarrow> (case errorsAs e of Some code \<Rightarrow> code = StatusConflict | None \<Rightarrow> False))"

section \<open>Record model\<close>

definition MetricsFileName :: string where
  "MetricsFileName = ''ci-operator-metrics.json''"

text \<open>\<^verbatim>\<open>strings.HasSuffix\<close>, as the Go library defines it.\<close>

definition HasSuffix :: "string \<Rightarrow> string \<Rightarrow> bool" where
  "HasSuffix s suffix =
     (length suffix \<le> length s \<and> drop (length s - length suffix) s = suffix)"

definition IsMetricsFile :: "string \<Rightarrow> bool" where
  "IsMetricsFile name = HasSuffix name MetricsFileName"


text \<open>
  JSON values as \<^verbatim>\<open>encoding/json\<close> sees them.  \<^verbatim>\<open>float64\<close> is the type parameter \<open>'f\<close>
  (only its zero matters to the code), \<^verbatim>\<open>time.Time\<close> the parameter \<open>'t\<close>; Go's \<^verbatim>\<open>int\<close>
  is \<open>int\<close>, no arithmetic being done on it.  A \<^verbatim>\<open>map[string]any\<close> is an association
  list, the nil and the empty map being \<open>[]\<close>.
\<close>

datatype ('f, 't) json =
    JNull
  | JBool bool
  | JInt int
  | JFloat 'f
  | JString string
  | JTime 't
  | JArray "('f, 't) json list"
  | JObject "(string \<times> ('f, 't) json) list"

text \<open>LeaseEventUnion holds all fields from both LeaseAcquisitionMetricEvent and LeaseReleaseMetricEvent.\<close>

record ('f, 't) LeaseEventUnion =
  LeaseName :: string
  Slice :: string
  Region :: string
  RawLeaseName :: string
  AcquisitionDurationSeconds :: 'f
  ReleaseDurationSeconds :: 'f
  LeasesRemainingAtAcquisition :: int
  LeasesAvailableAtRelease :: int
  LeasesTotal :: int
  Released :: bool
  Error :: string
  Timestamp :: 't

text \<open>ImageEventUnion holds all fields from both ImageStreamEvent and TagImportEvent.\<close>

record ('f, 't) ImageEventUnion =
  Namespace :: string
  ImageStreamName :: string
  FullName :: string
  TagName :: string
  FullTagName :: string
  SourceImage :: string
  SourceImageKind :: string
  StartTime :: 't
  CompletionTime :: 't
  DurationSeconds :: 'f
  RetryCount :: int
  Success :: bool
  Error :: string
  ImageStreamDetails :: "(string \<times> ('f, 't) json) list"
  AdditionalContext :: "(string \<times> ('f, 't) json) list"
  Timestamp :: 't

text \<open>
  MetricsData represents the complete metrics JSON structure.  The five pass-through
  record types of \<^verbatim>\<open>citoolsmetrics\<close> are type parameters; a sequence is a list of the
  records its pointers lead to, the nil slice being \<open>[]\<close> (a nil pointer in a sequence is
  not modelled).
\<close>

record ('f, 't, 'ev, 'nd, 'bd, 'pd, 'ins) MetricsData =
  Events :: "'ev list"
  Images :: "('f, 't) ImageEventUnion list"
  Leases :: "('f, 't) LeaseEventUnion list"
  Nodes :: "'nd list"
  OpenshiftBuilds :: "'bd list"
  Pods :: "'pd list"
  TestPlatformInsights :: "'ins list"

subsection \<open>Serialization of the union records\<close>

text \<open>
  \<^verbatim>\<open>encoding/json\<close> writes a struct as an object whose members follow the field order,
  under the names of the \<^verbatim>\<open>json\<close> tags.  A field tagged \<^verbatim>\<open>omitempty\<close> is left out when
  its value is empty: false, 0, or a string or map of length zero.  A struct value is
  never empty, so the tag has no effect on a \<^verbatim>\<open>time.Time\<close> field.
\<close>

definition emptyString :: "string \<Rightarrow> bool" where
  "emptyString s = (length s = 0)"

definition emptyFloat :: "'f::zero \<Rightarrow> bool" where
  "emptyFloat x = (x = 0)"

definition emptyInt :: "int \<Rightarrow> bool" where
  "emptyInt i = (i = 0)"

definition emptyBool :: "bool \<Rightarrow> bool" where
  "emptyBool b = (\<not> b)"

definition emptyMap :: "(string \<times> ('f, 't) json) list \<Rightarrow> bool" where
  "emptyMap m = (length m = 0)"

definition emptyStruct :: "'t \<Rightarrow> bool" where
  "emptyStruct v = False"

definition omitempty ::
  "bool \<Rightarrow> string \<Rightarrow> ('f, 't) json \<Rightarrow> (string \<times> ('f, 't) json) list" where
  "omitempty isEmpty key v = (if isEmpty then [] else [(key, v)])"

definition marshalLease :: "('f::zero, 't) LeaseEventUnion \<Rightarrow> ('f, 't) json" where
  "marshalLease l = JObject
     (omitempty (emptyString (LeaseName l)) ''name'' (JString (LeaseName l)) @
      omitempty (emptyString (Slice l)) ''slice'' (JString (Slice l)) @
      omitempty (emptyString (Region l)) ''region'' (JString (Region l)) @
      omitempty (emptyString (RawLeaseName l)) ''raw_lease_name'' (JString (RawLeaseName l)) @
      omitempty (emptyFloat (AcquisitionDurationSeconds l)) ''acquisition_duration_seconds''
        (JFloat (AcquisitionDurationSeconds l)) @
      omitempty (emptyFloat (ReleaseDurationSeconds l)) ''release_duration_seconds''
        (JFloat (ReleaseDurationSeconds l)) @
      omitempty (emptyInt (LeasesRemainingAtAcquisition l)) ''leases_remaining_at_acquisition''
        (JInt (LeasesRemainingAtAcquisition l)) @
      omitempty (emptyInt (LeasesAvailableAtRelease l)) ''leases_available_at_release''
        (JInt (LeasesAvailableAtRelease l)) @
      omitempty (emptyInt (LeasesTotal l)) ''leases_total'' (JInt (LeasesTotal l)) @
      omitempty (emptyBool (Released l)) ''released'' (JBool (Released l)) @
      omitempty (emptyString (LeaseEventUnion.Error l)) ''error''
        (JString (LeaseEventUnion.Error l)) @
      [(''timestamp'', JTime (LeaseEventUnion.Timestamp l))])"

definition marshalImage :: "('f::zero, 't) ImageEventUnion \<Rightarrow> ('f, 't) json" where
  "marshalImage i = JObject
     (omitempty (emptyString (Namespace i)) ''namespace'' (JString (Namespace i)) @
      omitempty (emptyString (ImageStreamName i)) ''image_stream_name''
        (JString (ImageStreamName i)) @
      omitempty (emptyString (FullName i)) ''full_name'' (JString (FullName i)) @
      omitempty (emptyString (TagName i)) ''tag_name'' (JString (TagName i)) @
      omitempty (emptyString (FullTagName i)) ''full_tag_name'' (JString (FullTagName i)) @
      omitempty (emptyString (SourceImage i)) ''source_image'' (JString (SourceImage i)) @
      omitempty (emptyString (SourceImageKind i)) ''source_image_kind''
        (JString (SourceImageKind i)) @
      omitempty (emptyStruct (StartTime i)) ''start_time'' (JTime (StartTime i)) @
      omitempty (emptyStruct (CompletionTime i)) ''completion_time''
        (JTime (CompletionTime i)) @
      omitempty (emptyFloat (DurationSeconds i)) ''duration_seconds''
        (JFloat (DurationSeconds i)) @
      omitempty (emptyInt (RetryCount i)) ''retry_count'' (JInt (RetryCount i)) @
      omitempty (emptyBool (Success i)) ''success'' (JBool (Success i)) @
      omitempty (emptyString (ImageEventUnion.Error i)) ''error''
        (JString (ImageEventUnion.Error i)) @
      omitempty (emptyMap (ImageStreamDetails i)) ''image_stream_details''
        (JObject (ImageStreamDetails i)) @
      omitempty (emptyMap (AdditionalContext i)) ''additional_context''
        (JObject (AdditionalContext i)) @
      [(''timestamp'', JTime (ImageEventUnion.Timestamp i))])"

text \<open>The member names of a serialized object, in output order.\<close>

fun objectKeys :: "('f, 't) json \<Rightarrow> string list" where
  "objectKeys (JObject members) = map fst members"
| "objectKeys v = []"

section \<open>Sequencing of fallible steps\<close>

text \<open>
  A step returns its error (\<open>None\<close> for \<^verbatim>\<open>nil\<close>) and the state it leaves behind.
  \<open>wrapErr msg\<close> is the \<^verbatim>\<open>if err != nil { return fmt.Errorf("msg: %w", err) }\<close> around a
  call, \<open>andThen\<close> the early return: the rest runs only after \<^verbatim>\<open>nil\<close>.
\<close>

definition wrapErr :: "string \<Rightarrow> error option \<times> 's \<Rightarrow> error option \<times> 's" where
  "wrapErr msg r = (case r of (None, s) \<Rightarrow> (None, s) | (Some e, s) \<Rightarrow> (Some (Wrapped msg e), s))"

definition andThen ::
  "error option \<times> 's \<Rightarrow> ('s \<Rightarrow> error option \<times> 's) \<Rightarrow> error option \<times> 's" where
  "andThen r k = (case r of (None, s) \<Rightarrow> k s | (Some e, s) \<Rightarrow> (Some e, s))"

section \<open>Dispatcher: the warehouse sink\<close>

text \<open>
  The value handed to a sink: a typed slice for \<^verbatim>\<open>Inserter.Put\<close>, the \<^verbatim>\<open>interface{}\<close>
  that \<^verbatim>\<open>exportTable\<close> switches on.  \<open>OtherRows\<close> is any other dynamic type.
\<close>

datatype ('f, 't, 'ev, 'nd, 'bd, 'pd, 'ins) rows =
    ImageRows "('f, 't) ImageEventUnion list"
  | NodeRows "'nd list"
  | LeaseRows "('f, 't) LeaseEventUnion list"
  | BuildRows "'bd list"
  | PodRows "'pd list"
  | InsightsRows "'ins list"
  | EventRows "'ev list"
  | OtherRows

text \<open>
  The BigQuery client is a black box.  Every call the loader makes on it is appended, with
  the client's answer, to a trace; the answer may depend on all that went before.
\<close>

datatype ('f, 't, 'ev, 'nd, 'bd, 'pd, 'ins) bq_call =
    TableCreate string
  | InserterPut string "('f, 't, 'ev, 'nd, 'bd, 'pd, 'ins) rows"

type_synonym ('f, 't, 'ev, 'nd, 'bd, 'pd, 'ins) bq_trace =
  "(('f, 't, 'ev, 'nd, 'bd, 'pd, 'ins) bq_call \<times> error option) list"

text \<open>
  BigQueryLoader handles loading metrics data into BigQuery.  \<open>bqClient\<close> answers the
  calls on the dataset's tables; \<open>InferSchema\<close> is \<^verbatim>\<open>bigquery.InferSchema\<close> on the zero
  value of the named struct type (the schema itself is opaque to the loader).  The context,
  the project and dataset identifiers and the logger have no part in the control flow.
\<close>

record ('f, 't, 'ev, 'nd, 'bd, 'pd, 'ins) BigQueryLoader =
  bqClient :: "('f, 't, 'ev, 'nd, 'bd, 'pd, 'ins) bq_trace
                 \<Rightarrow> ('f, 't, 'ev, 'nd, 'bd, 'pd, 'ins) bq_call \<Rightarrow> error option"
  InferSchema :: "string \<Rightarrow> error option"

definition tableCreate ::
  "('f, 't, 'ev, 'nd, 'bd, 'pd, 'ins) BigQueryLoader \<Rightarrow> string
     \<Rightarrow> ('f, 't, 'ev, 'nd, 'bd, 'pd, 'ins) bq_trace
     \<Rightarrow> error option \<times> ('f, 't, 'ev, 'nd, 'bd, 'pd, 'ins) bq_trace" where
  "tableCreate b table h =
     (let r = bqClient b h (TableCreate table) in (r, h @ [(TableCreate table, r)]))"

definition inserterPut ::
  "('f, 't, 'ev, 'nd, 'bd, 'pd, 'ins) BigQueryLoader \<Rightarrow> string
     \<Rightarrow> ('f, 't, 'ev, 'nd, 'bd, 'pd, 'ins) rows
     \<Rightarrow> ('f, 't, 'ev, 'nd, 'bd, 'pd, 'ins) bq_trace
     \<Rightarrow> error option \<times> ('f, 't, 'ev, 'nd, 'bd, 'pd, 'ins) bq_trace" where
  "inserterPut b table rws h =
     (let r = bqClient b h (InserterPut table rws) in (r, h @ [(InserterPut table rws, r)]))"

text \<open>
  The seven \<^verbatim>\<open>load...\<close> methods have one body, up to the table name, the struct type whose
  schema is inferred, the noun of the insert error and the slice; \<open>loadTable\<close> is that
  body, \<open>n\<close> being \<^verbatim>\<open>len\<close> of the slice.
\<close>

definition loadTable ::
  "('f, 't, 'ev, 'nd, 'bd, 'pd, 'ins) BigQueryLoader \<Rightarrow> string \<Rightarrow> string \<Rightarrow> string \<Rightarrow> nat
     \<Rightarrow> ('f, 't, 'ev, 'nd, 'bd, 'pd, 'ins) rows
     \<Rightarrow> ('f, 't, 'ev, 'nd, 'bd, 'pd, 'ins) bq_trace
     \<Rightarrow> error option \<times> ('f, 't, 'ev, 'nd, 'bd, 'pd, 'ins) bq_trace" where
  "loadTable b table structType noun n rws h =
     (if n = 0 then (None, h)
      else
        (case InferSchema b structType of
           Some e \<Rightarrow> (Some (Wrapped ''failed to infer schema'' e), h)
         | None \<Rightarrow>
             (case tableCreate b table h of
                (Some e, h1) \<Rightarrow>
                  if \<not> isAlreadyExistsError (Some e)
                  then (Some (Wrapped ''failed to create table'' e), h1)
                  else wrapErr (''failed to insert '' @ noun) (inserterPut b table rws h1)
              | (None, h1) \<Rightarrow>
                  wrapErr (''failed to insert '' @ noun) (inserterPut b table rws h1))))"

definition loadImages ::
  "('f, 't, 'ev, 'nd, 'bd, 'pd, 'ins) BigQueryLoader \<Rightarrow> ('f, 't) ImageEventUnion list
     \<Rightarrow> ('f, 't, 'ev, 'nd, 'bd, 'pd, 'ins) bq_trace
     \<Rightarrow> error option \<times> ('f, 't, 'ev, 'nd, 'bd, 'pd, 'ins) bq_trace" where
  "loadImages b images h =
     loadTable b ''images'' ''ImageEventUnion'' ''images'' (length images) (ImageRows images) h"

definition loadNodes ::
  "('f, 't, 'ev, 'nd, 'bd, 'pd, 'ins) BigQueryLoader \<Rightarrow> 'nd list
     \<Rightarrow> ('f, 't, 'ev, 'nd, 'bd, 'pd, 'ins) bq_trace
     \<Rightarrow> error option \<times> ('f, 't, 'ev, 'nd, 'bd, 'pd, 'ins) bq_trace" where
  "loadNodes b nodes h =
     loadTable b ''nodes'' ''NodeEvent'' ''nodes'' (length nodes) (NodeRows nodes) h"

definition loadInsights ::
  "('f, 't, 'ev, 'nd, 'bd, 'pd, 'ins) BigQueryLoader \<Rightarrow> 'ins list
     \<Rightarrow> ('f, 't, 'ev, 'nd, 'bd, 'pd, 'ins) bq_trace
     \<Rightarrow> error option \<times> ('f, 't, 'ev, 'nd, 'bd, 'pd, 'ins) bq_trace" where
  "loadInsights b insights h =
     loadTable b ''test_platform_insights'' ''InsightsEvent'' ''insights'' (length insights)
       (InsightsRows insights) h"

definition loadLeases ::
  "('f, 't, 'ev, 'nd, 'bd, 'pd, 'ins) BigQueryLoader \<Rightarrow> ('f, 't) LeaseEventUnion list
     \<Rightarrow> ('f, 't, 'ev, 'nd, 'bd, 'pd, 'ins) bq_trace
     \<Rightarrow> error option \<times> ('f, 't, 'ev, 'nd, 'bd, 'pd, 'ins) bq_trace" where
  "loadLeases b leases h =
     loadTable b ''leases'' ''LeaseEventUnion'' ''leases'' (length leases) (LeaseRows leases) h"

definition loadBuilds ::
  "('f, 't, 'ev, 'nd, 'bd, 'pd, 'ins) BigQueryLoader \<Rightarrow> 'bd list
     \<Rightarrow> ('f, 't, 'ev, 'nd, 'bd, 'pd, 'ins) bq_trace
     \<Rightarrow> error option \<times> ('f, 't, 'ev, 'nd, 'bd, 'pd, 'ins) bq_trace" where
  "loadBuilds b builds h =
     loadTable b ''openshift_builds'' ''BuildEvent'' ''builds'' (length builds)
       (BuildRows builds) h"

definition loadPods ::
  "('f, 't, 'ev, 'nd, 'bd, 'pd, 'ins) BigQueryLoader \<Rightarrow> 'pd list
     \<Rightarrow> ('f, 't, 'ev, 'nd, 'bd, 'pd, 'ins) bq_trace
     \<Rightarrow> error option \<times> ('f, 't, 'ev, 'nd, 'bd, 'pd, 'ins) bq_trace" where
  "loadPods b pods h =
     loadTable b ''pods'' ''PodLifecycleMetricsEvent'' ''pods'' (length pods) (PodRows pods) h"

definition loadEvents ::
  "('f, 't, 'ev, 'nd, 'bd, 'pd, 'ins) BigQueryLoader \<Rightarrow> 'ev list
     \<Rightarrow> ('f, 't, 'ev, 'nd, 'bd, 'pd, 'ins) bq_trace
     \<Rightarrow> error option \<times> ('f, 't, 'ev, 'nd, 'bd, 'pd, 'ins) bq_trace" where
  "loadEvents b events h =
     loadTable b ''events'' ''Event'' ''events'' (length events) (EventRows events) h"

text \<open>LoadMetricsData loads the metrics file into BigQuery.\<close>

definition LoadMetricsData ::
  "('f, 't, 'ev, 'nd, 'bd, 'pd, 'ins) BigQueryLoader
     \<Rightarrow> ('f, 't, 'ev, 'nd, 'bd, 'pd, 'ins) MetricsData
     \<Rightarrow> ('f, 't, 'ev, 'nd, 'bd, 'pd, 'ins) bq_trace
     \<Rightarrow> error option \<times> ('f, 't, 'ev, 'nd, 'bd, 'pd, 'ins) bq_trace" where
  "LoadMetricsData b data h0 =
     andThen (wrapErr ''failed to load images'' (loadImages b (Images data) h0)) (\<lambda>h.
     andThen (wrapErr ''failed to load nodes'' (loadNodes b (Nodes data) h)) (\<lambda>h.
     andThen (wrapErr ''failed to load insights''
                (loadInsights b (TestPlatformInsights data) h)) (\<lambda>h.
     andThen (wrapErr ''failed to load leases'' (loadLeases b (Leases data) h)) (\<lambda>h.
     andThen (wrapErr ''failed to load builds'' (loadBuilds b (OpenshiftBuilds data) h)) (\<lambda>h.
     andThen (wrapErr ''failed to load pods'' (loadPods b (Pods data) h)) (\<lambda>h.
     andThen (wrapErr ''failed to load events'' (loadEvents b (Events data) h)) (\<lambda>h.
     (None, h))))))))"

section \<open>Dispatcher: the file-export sink\<close>

text \<open>
  The file system holds the content of each file by path, and the trace of the calls made
  on it with their answers.
\<close>

datatype fs_call =
    MkdirAll string
  | Create string
  | Write string string

record fsys =
  files :: "string \<rightharpoonup> string"
  fsLog :: "(fs_call \<times> error option) list"

text \<open>
  The runtime the export runs on, as a black box: the GCS client (\<open>storageNewClient\<close>,
  \<open>storageNewReader\<close>), the JSON decoder of the document, the operating system's answer to
  each file-system call (which may depend on the state of the file system),
  \<^verbatim>\<open>filepath.Join\<close>, the JSON text of a value (\<open>jsonText\<close>, which fails on what JSON cannot
  express) and \<^verbatim>\<open>json.Marshal\<close> of each pass-through record type.
\<close>

record ('f, 't, 'ev, 'nd, 'bd, 'pd, 'ins) runtime =
  storageNewClient :: "error option"
  storageNewReader :: "string \<Rightarrow> string \<Rightarrow> error + string"
  jsonDecode :: "string \<Rightarrow> error + ('f, 't, 'ev, 'nd, 'bd, 'pd, 'ins) MetricsData"
  osCall :: "fsys \<Rightarrow> fs_call \<Rightarrow> error option"
  filepathJoin :: "string \<Rightarrow> string \<Rightarrow> string"
  jsonText :: "('f, 't) json \<Rightarrow> error + string"
  marshalNode :: "'nd \<Rightarrow> error + string"
  marshalBuild :: "'bd \<Rightarrow> error + string"
  marshalPod :: "'pd \<Rightarrow> error + string"
  marshalInsights :: "'ins \<Rightarrow> error + string"
  marshalEvent :: "'ev \<Rightarrow> error + string"

definition osMkdirAll ::
  "('f, 't, 'ev, 'nd, 'bd, 'pd, 'ins) runtime \<Rightarrow> string \<Rightarrow> fsys \<Rightarrow> error option \<times> fsys" where
  "osMkdirAll rt dir fs =
     (let r = osCall rt fs (MkdirAll dir)
      in (r, fs\<lparr>fsLog := fsLog fs @ [(MkdirAll dir, r)]\<rparr>))"

text \<open>\<^verbatim>\<open>os.Create\<close> creates the file or truncates it when it exists.\<close>

definition osCreate ::
  "('f, 't, 'ev, 'nd, 'bd, 'pd, 'ins) runtime \<Rightarrow> string \<Rightarrow> fsys \<Rightarrow> error option \<times> fsys" where
  "osCreate rt path fs =
     (let r = osCall rt fs (Create path)
      in (r, fs\<lparr>files := (if r = None then (files fs)(path \<mapsto> []) else files fs),
                 fsLog := fsLog fs @ [(Create path, r)]\<rparr>))"

definition fileWrite ::
  "('f, 't, 'ev, 'nd, 'bd, 'pd, 'ins) runtime \<Rightarrow> string \<Rightarrow> string \<Rightarrow> fsys
     \<Rightarrow> error option \<times> fsys" where
  "fileWrite rt path bytes fs =
     (let r = osCall rt fs (Write path bytes);
          old = (case files fs path of None \<Rightarrow> [] | Some c \<Rightarrow> c)
      in (r, fs\<lparr>files := (if r = None then (files fs)(path \<mapsto> old @ bytes) else files fs),
                 fsLog := fsLog fs @ [(Write path bytes, r)]\<rparr>))"

text \<open>
  \<^verbatim>\<open>encoder.Encode(item)\<close>: marshal the item, then write the text and a newline to the
  file; nothing is written when marshalling fails.
\<close>

definition encoderEncode ::
  "('f, 't, 'ev, 'nd, 'bd, 'pd, 'ins) runtime \<Rightarrow> ('a \<Rightarrow> error + string) \<Rightarrow> string \<Rightarrow> 'a
     \<Rightarrow> fsys \<Rightarrow> error option \<times> fsys" where
  "encoderEncode rt marshal path item fs =
     (case marshal item of
        Inl e \<Rightarrow> (Some e, fs)
      | Inr text \<Rightarrow> fileWrite rt path (text @ [CHR 0x0A]) fs)"

text \<open>The \<^verbatim>\<open>for _, item := range v\<close> loop of each branch of \<^verbatim>\<open>exportTable\<close>.\<close>

fun encodeItems ::
  "('f, 't, 'ev, 'nd, 'bd, 'pd, 'ins) runtime \<Rightarrow> ('a \<Rightarrow> error + string) \<Rightarrow> string \<Rightarrow> 'a list
     \<Rightarrow> fsys \<Rightarrow> error option \<times> fsys" where
  "encodeItems rt marshal path [] fs = (None, fs)"
| "encodeItems rt marshal path (item # v) fs =
     andThen (wrapErr ''failed to encode item'' (encoderEncode rt marshal path item fs))
       (encodeItems rt marshal path v)"

definition exportTable ::
  "('f::zero, 't, 'ev, 'nd, 'bd, 'pd, 'ins) runtime \<Rightarrow> string \<Rightarrow> string
     \<Rightarrow> ('f, 't, 'ev, 'nd, 'bd, 'pd, 'ins) rows \<Rightarrow> fsys \<Rightarrow> error option \<times> fsys" where
  "exportTable rt exportDir filename data fs =
     (let filePath = filepathJoin rt exportDir filename in
      case osCreate rt filePath fs of
        (Some e, fs1) \<Rightarrow> (Some (Wrapped (''failed to create '' @ filename) e), fs1)
      | (None, fs1) \<Rightarrow>
          (case data of
             ImageRows v \<Rightarrow> encodeItems rt (\<lambda>item. jsonText rt (marshalImage item)) filePath v fs1
           | NodeRows v \<Rightarrow> encodeItems rt (marshalNode rt) filePath v fs1
           | LeaseRows v \<Rightarrow> encodeItems rt (\<lambda>item. jsonText rt (marshalLease item)) filePath v fs1
           | BuildRows v \<Rightarrow> encodeItems rt (marshalBuild rt) filePath v fs1
           | PodRows v \<Rightarrow> encodeItems rt (marshalPod rt) filePath v fs1
           | InsightsRows v \<Rightarrow> encodeItems rt (marshalInsights rt) filePath v fs1
           | EventRows v \<Rightarrow> encodeItems rt (marshalEvent rt) filePath v fs1
           | OtherRows \<Rightarrow> (Some (ErrorString ''unsupported data type for export''), fs1)))"

text \<open>
  The per-category part of \<^verbatim>\<open>ExportMetricsFromGCS\<close> (the seven \<^verbatim>\<open>if len(...) > 0\<close>
  blocks after the export directory has been made).
\<close>

definition exportCategories ::
  "('f::zero, 't, 'ev, 'nd, 'bd, 'pd, 'ins) runtime \<Rightarrow> string
     \<Rightarrow> ('f, 't, 'ev, 'nd, 'bd, 'pd, 'ins) MetricsData \<Rightarrow> fsys \<Rightarrow> error option \<times> fsys" where
  "exportCategories rt exportDir data fs0 =
     andThen (if 0 < length (Images data)
              then wrapErr ''failed to export images''
                     (exportTable rt exportDir ''images.json'' (ImageRows (Images data)) fs0)
              else (None, fs0)) (\<lambda>fs.
     andThen (if 0 < length (Nodes data)
              then wrapErr ''failed to export nodes''
                     (exportTable rt exportDir ''nodes.json'' (NodeRows (Nodes data)) fs)
              else (None, fs)) (\<lambda>fs.
     andThen (if 0 < length (Leases data)
              then wrapErr ''failed to export leases''
                     (exportTable rt exportDir ''leases.json'' (LeaseRows (Leases data)) fs)
              else (None, fs)) (\<lambda>fs.
     andThen (if 0 < length (OpenshiftBuilds data)
              then wrapErr ''failed to export builds''
                     (exportTable rt exportDir ''openshift_builds.json''
                        (BuildRows (OpenshiftBuilds data)) fs)
              else (None, fs)) (\<lambda>fs.
     andThen (if 0 < length (Pods data)
              then wrapErr ''failed to export pods''
                     (exportTable rt exportDir ''pods.json'' (PodRows (Pods data)) fs)
              else (None, fs)) (\<lambda>fs.
     andThen (if 0 < length (TestPlatformInsights data)
              then wrapErr ''failed to export insights''
                     (exportTable rt exportDir ''test_platform_insights.json''
                        (InsightsRows (TestPlatformInsights data)) fs)
              else (None, fs)) (\<lambda>fs.
     andThen (if 0 < length (Events data)
              then wrapErr ''failed to export events''
                     (exportTable rt exportDir ''events.json'' (EventRows (Events data)) fs)
              else (None, fs)) (\<lambda>fs.
     (None, fs))))))))"

text \<open>
  ExportMetricsFromGCS reads metrics from GCS and exports them as JSON files for manual
  BigQuery import.
\<close>

definition ExportMetricsFromGCS ::
  "('f::zero, 't, 'ev, 'nd, 'bd, 'pd, 'ins) runtime \<Rightarrow> string \<Rightarrow> string \<Rightarrow> string \<Rightarrow> fsys
     \<Rightarrow> error option \<times> fsys" where
  "ExportMetricsFromGCS rt bucket object exportDir fs =
     (case storageNewClient rt of
        Some e \<Rightarrow> (Some (Wrapped ''failed to create GCS client'' e), fs)
      | None \<Rightarrow>
          (case storageNewReader rt bucket object of
             Inl e \<Rightarrow> (Some (Wrapped ''failed to open GCS object'' e), fs)
           | Inr reader \<Rightarrow>
               (case jsonDecode rt reader of
                  Inl e \<Rightarrow> (Some (Wrapped ''failed to decode JSON from GCS'' e), fs)
                | Inr data \<Rightarrow>
                    andThen (wrapErr ''failed to create export directory''
                               (osMkdirAll rt exportDir fs))
                      (exportCategories rt exportDir data))))"

text \<open>LoadFromGCS loads metrics from a GCS file.\<close>

definition LoadFromGCS ::
  "('f, 't, 'ev, 'nd, 'bd, 'pd, 'ins) BigQueryLoader
     \<Rightarrow> ('f, 't, 'ev, 'nd, 'bd, 'pd, 'ins) runtime \<Rightarrow> string \<Rightarrow> string
     \<Rightarrow> ('f, 't, 'ev, 'nd, 'bd, 'pd, 'ins) bq_trace
     \<Rightarrow> error option \<times> ('f, 't, 'ev, 'nd, 'bd, 'pd, 'ins) bq_trace" where
  "LoadFromGCS b rt bucket object h =
     (case storageNewClient rt of
        Some e \<Rightarrow> (Some (Wrapped ''failed to create GCS client'' e), h)
      | None \<Rightarrow>
          (case storageNewReader rt bucket object of
             Inl e \<Rightarrow> (Some (Wrapped ''failed to open GCS object'' e), h)
           | Inr reader \<Rightarrow>
               (case jsonDecode rt reader of
                  Inl e \<Rightarrow> (Some (Wrapped ''failed to decode JSON from GCS'' e), h)
                | Inr data \<Rightarrow> LoadMetricsData b data h)))"

section \<open>The categories, for stating the properties\<close>

text \<open>
  The seven categories, the name each goes by in the error messages (\<open>catName\<close>), the name
  of its destination (\<open>destName\<close>), the struct type its schema is inferred from, and its
  sequence in a document.
\<close>

datatype category =
  CatImages | CatNodes | CatInsights | CatLeases | CatBuilds | CatPods | CatEvents

fun catName :: "category \<Rightarrow> string" where
  "catName CatImages = ''images''"
| "catName CatNodes = ''nodes''"
| "catName CatInsights = ''insights''"
| "catName CatLeases = ''leases''"
| "catName CatBuilds = ''builds''"
| "catName CatPods = ''pods''"
| "catName CatEvents = ''events''"

fun destName :: "category \<Rightarrow> string" where
  "destName CatImages = ''images''"
| "destName CatNodes = ''nodes''"
| "destName CatInsights = ''test_platform_insights''"
| "destName CatLeases = ''leases''"
| "destName CatBuilds = ''openshift_builds''"
| "destName CatPods = ''pods''"
| "destName CatEvents = ''events''"

fun structType :: "category \<Rightarrow> string" where
  "structType CatImages = ''ImageEventUnion''"
| "structType CatNodes = ''NodeEvent''"
| "structType CatInsights = ''InsightsEvent''"
| "structType CatLeases = ''LeaseEventUnion''"
| "structType CatBuilds = ''BuildEvent''"
| "structType CatPods = ''PodLifecycleMetricsEvent''"
| "structType CatEvents = ''Event''"

fun catRows ::
  "('f, 't, 'ev, 'nd, 'bd, 'pd, 'ins) MetricsData \<Rightarrow> category
     \<Rightarrow> ('f, 't, 'ev, 'nd, 'bd, 'pd, 'ins) rows" where
  "catRows data CatImages = ImageRows (Images data)"
| "catRows data CatNodes = NodeRows (Nodes data)"
| "catRows data CatInsights = InsightsRows (TestPlatformInsights data)"
| "catRows data CatLeases = LeaseRows (Leases data)"
| "catRows data CatBuilds = BuildRows (OpenshiftBuilds data)"
| "catRows data CatPods = PodRows (Pods data)"
| "catRows data CatEvents = EventRows (Events data)"

fun rowCount :: "('f, 't, 'ev, 'nd, 'bd, 'pd, 'ins) rows \<Rightarrow> nat" where
  "rowCount (ImageRows v) = length v"
| "rowCount (NodeRows v) = length v"
| "rowCount (LeaseRows v) = length v"
| "rowCount (BuildRows v) = length v"
| "rowCount (PodRows v) = length v"
| "rowCount (InsightsRows v) = length v"
| "rowCount (EventRows v) = length v"
| "rowCount OtherRows = 0"

definition nonEmpty ::
  "('f, 't, 'ev, 'nd, 'bd, 'pd, 'ins) MetricsData \<Rightarrow> category \<Rightarrow> bool" where
  "nonEmpty data c = (0 < rowCount (catRows data c))"

text \<open>The order in which each sink goes through the categories.\<close>

definition loadOrder :: "category list" where
  "loadOrder = [CatImages, CatNodes, CatInsights, CatLeases, CatBuilds, CatPods, CatEvents]"

definition exportOrder :: "category list" where
  "exportOrder = [CatImages, CatNodes, CatLeases, CatBuilds, CatPods, CatInsights, CatEvents]"

text \<open>
  The dispatch of the specification (section 4.2): one category is skipped when empty, else
  its destination is created and its records written; the categories of a list are taken
  in order, the first failure ending the pass under the category's name.
\<close>

definition loadCategory ::
  "('f, 't, 'ev, 'nd, 'bd, 'pd, 'ins) BigQueryLoader
     \<Rightarrow> ('f, 't, 'ev, 'nd, 'bd, 'pd, 'ins) MetricsData \<Rightarrow> category
     \<Rightarrow> ('f, 't, 'ev, 'nd, 'bd, 'pd, 'ins) bq_trace
     \<Rightarrow> error option \<times> ('f, 't, 'ev, 'nd, 'bd, 'pd, 'ins) bq_trace" where
  "loadCategory b data c h =
     loadTable b (destName c) (structType c) (catName c) (rowCount (catRows data c))
       (catRows data c) h"

fun loadCategories ::
  "('f, 't, 'ev, 'nd, 'bd, 'pd, 'ins) BigQueryLoader
     \<Rightarrow> ('f, 't, 'ev, 'nd, 'bd, 'pd, 'ins) MetricsData \<Rightarrow> category list
     \<Rightarrow> ('f, 't, 'ev, 'nd, 'bd, 'pd, 'ins) bq_trace
     \<Rightarrow> error option \<times> ('f, 't, 'ev, 'nd, 'bd, 'pd, 'ins) bq_trace" where
  "loadCategories b data [] h = (None, h)"
| "loadCategories b data (c # cs) h =
     andThen (wrapErr (''failed to load '' @ catName c) (loadCategory b data c h))
       (loadCategories b data cs)"

text \<open>The calls a pass makes for categories that all succeed: none for an empty one.\<close>

definition categoryCalls ::
  "('f, 't, 'ev, 'nd, 'bd, 'pd, 'ins) MetricsData \<Rightarrow> category
     \<Rightarrow> ('f, 't, 'ev, 'nd, 'bd, 'pd, 'ins) bq_call list" where
  "categoryCalls data c =
     (if nonEmpty data c
      then [TableCreate (destName c), InserterPut (destName c) (catRows data c)]
      else [])"

definition expectedCalls ::
  "('f, 't, 'ev, 'nd, 'bd, 'pd, 'ins) MetricsData \<Rightarrow> category list
     \<Rightarrow> ('f, 't, 'ev, 'nd, 'bd, 'pd, 'ins) bq_call list" where
  "expectedCalls data cs = concat (map (categoryCalls data) cs)"

text \<open>The answers given to the writes of a trace.\<close>

fun isPut :: "('f, 't, 'ev, 'nd, 'bd, 'pd, 'ins) bq_call \<Rightarrow> bool" where
  "isPut (InserterPut table rws) = True"
| "isPut (TableCreate table) = False"

definition putAnswers ::
  "('f, 't, 'ev, 'nd, 'bd, 'pd, 'ins) bq_trace \<Rightarrow> error option list" where
  "putAnswers tr = map snd (filter (\<lambda>entry. isPut (fst entry)) tr)"

text \<open>
  The export of the specification (section 4.3): a non-empty category is written to the
  file named after its destination; the categories of a list are taken in order, the first
  failure ending the pass under the category's name.
\<close>

definition exportPath ::
  "('f, 't, 'ev, 'nd, 'bd, 'pd, 'ins) runtime \<Rightarrow> string \<Rightarrow> category \<Rightarrow> string" where
  "exportPath rt exportDir c = filepathJoin rt exportDir (destName c @ ''.json'')"

definition exportCategory ::
  "('f::zero, 't, 'ev, 'nd, 'bd, 'pd, 'ins) runtime \<Rightarrow> string
     \<Rightarrow> ('f, 't, 'ev, 'nd, 'bd, 'pd, 'ins) MetricsData \<Rightarrow> category \<Rightarrow> fsys
     \<Rightarrow> error option \<times> fsys" where
  "exportCategory rt exportDir data c fs =
     (if nonEmpty data c
      then wrapErr (''failed to export '' @ catName c)
             (exportTable rt exportDir (destName c @ ''.json'') (catRows data c) fs)
      else (None, fs))"

fun exportAll ::
  "('f::zero, 't, 'ev, 'nd, 'bd, 'pd, 'ins) runtime \<Rightarrow> string
     \<Rightarrow> ('f, 't, 'ev, 'nd, 'bd, 'pd, 'ins) MetricsData \<Rightarrow> category list \<Rightarrow> fsys
     \<Rightarrow> error option \<times> fsys" where
  "exportAll rt exportDir data [] fs = (None, fs)"
| "exportAll rt exportDir data (c # cs) fs =
     andThen (exportCategory rt exportDir data c fs) (exportAll rt exportDir data cs)"

text \<open>
  What the encoder makes of the records of a category: the marshalled form of each, and the
  line each successful one becomes in the file (its text and a newline).
\<close>

fun rowsMarshal ::
  "('f::zero, 't, 'ev, 'nd, 'bd, 'pd, 'ins) runtime
     \<Rightarrow> ('f, 't, 'ev, 'nd, 'bd, 'pd, 'ins) rows \<Rightarrow> (error + string) list" where
  "rowsMarshal rt (ImageRows v) = map (\<lambda>item. jsonText rt (marshalImage item)) v"
| "rowsMarshal rt (NodeRows v) = map (marshalNode rt) v"
| "rowsMarshal rt (LeaseRows v) = map (\<lambda>item. jsonText rt (marshalLease item)) v"
| "rowsMarshal rt (BuildRows v) = map (marshalBuild rt) v"
| "rowsMarshal rt (PodRows v) = map (marshalPod rt) v"
| "rowsMarshal rt (InsightsRows v) = map (marshalInsights rt) v"
| "rowsMarshal rt (EventRows v) = map (marshalEvent rt) v"
| "rowsMarshal rt OtherRows = []"

fun itemLine :: "error + string \<Rightarrow> string" where
  "itemLine (Inr text) = text @ [CHR 0x0A]"
| "itemLine (Inl e) = []"

definition rowsLines ::
  "('f::zero, 't, 'ev, 'nd, 'bd, 'pd, 'ins) runtime
     \<Rightarrow> ('f, 't, 'ev, 'nd, 'bd, 'pd, 'ins) rows \<Rightarrow> string list" where
  "rowsLines rt data = map itemLine (rowsMarshal rt data)"

text \<open>The file-system calls of a pass whose categories all succeed, and the files it leaves.\<close>

definition categoryFileCalls ::
  "('f::zero, 't, 'ev, 'nd, 'bd, 'pd, 'ins) runtime \<Rightarrow> string
     \<Rightarrow> ('f, 't, 'ev, 'nd, 'bd, 'pd, 'ins) MetricsData \<Rightarrow> category \<Rightarrow> fs_call list" where
  "categoryFileCalls rt exportDir data c =
     Create (exportPath rt exportDir c)
       # map (Write (exportPath rt exportDir c)) (rowsLines rt (catRows data c))"

definition expectedFileCalls ::
  "('f::zero, 't, 'ev, 'nd, 'bd, 'pd, 'ins) runtime \<Rightarrow> string
     \<Rightarrow> ('f, 't, 'ev, 'nd, 'bd, 'pd, 'ins) MetricsData \<Rightarrow> category list \<Rightarrow> fs_call list" where
  "expectedFileCalls rt exportDir data cs =
     concat (map (categoryFileCalls rt exportDir data) (filter (nonEmpty data) cs))"

fun writtenFiles ::
  "('f::zero, 't, 'ev, 'nd, 'bd, 'pd, 'ins) runtime \<Rightarrow> string
     \<Rightarrow> ('f, 't, 'ev, 'nd, 'bd, 'pd, 'ins) MetricsData \<Rightarrow> category list
     \<Rightarrow> (string \<rightharpoonup> string) \<Rightarrow> (string \<rightharpoonup> string)" where
  "writtenFiles rt exportDir data [] m = m"
| "writtenFiles rt exportDir data (c # cs) m =
     writtenFiles rt exportDir data cs
       (if nonEmpty data c
        then m(exportPath rt exportDir c \<mapsto> concat (rowsLines rt (catRows data c)))
        else m)"

text \<open>The destinations created and the files created, in the order of the calls.\<close>

fun createdTables :: "('f, 't, 'ev, 'nd, 'bd, 'pd, 'ins) bq_call list \<Rightarrow> string list" where
  "createdTables [] = []"
| "createdTables (TableCreate table # calls) = table # createdTables calls"
| "createdTables (InserterPut table rws # calls) = createdTables calls"

fun createdFiles :: "fs_call list \<Rightarrow> string list" where
  "createdFiles [] = []"
| "createdFiles (Create path # calls) = path # createdFiles calls"
| "createdFiles (MkdirAll path # calls) = createdFiles calls"
| "createdFiles (Write path bytes # calls) = createdFiles calls"

text \<open>
  Reading a file as newline-delimited JSON: the text is cut after each newline and every
  line is handed to the decoder of one record.
\<close>

fun linesOf :: "string \<Rightarrow> string \<Rightarrow> string list" where
  "linesOf cur [] = (if cur = [] then [] else [cur])"
| "linesOf cur (c # cs) =
     (if c = CHR 0x0A then cur # linesOf [] cs else linesOf (cur @ [c]) cs)"

definition decodeNDJSON :: "(string \<Rightarrow> 'a option) \<Rightarrow> string \<Rightarrow> 'a option list" where
  "decodeNDJSON dec content = map dec (linesOf [] content)"

text \<open>
  An answer the loader goes on after: no error, or the already-exists error of a creation.
\<close>

definition tolerated ::
  "('f, 't, 'ev, 'nd, 'bd, 'pd, 'ins) bq_call \<times> error option \<Rightarrow> bool" where
  "tolerated entry =
     (snd entry = None \<or> (isAlreadyExistsError (snd entry) \<and> \<not> isPut (fst entry)))"

section \<open>Concrete inputs\<close>

text \<open>
  A lease with acquisition-side fields only, an image record with nothing set, and a
  document holding them together with one build; numbers stand in for \<^verbatim>\<open>float64\<close> and
  \<^verbatim>\<open>time.Time\<close>, strings for the pass-through records.
\<close>

definition exLease :: "(int, nat) LeaseEventUnion" where
  "exLease =
     \<lparr> LeaseName = ''aws-quota-slice'', Slice = ''aws-3'', Region = ''us-east-1'',
       RawLeaseName = ''us-east-1--aws-quota-slice-03'', AcquisitionDurationSeconds = 12,
       ReleaseDurationSeconds = 0, LeasesRemainingAtAcquisition = 4,
       LeasesAvailableAtRelease = 0, LeasesTotal = 10, Released = False,
       LeaseEventUnion.Error = [], LeaseEventUnion.Timestamp = 1700000000 \<rparr>"

definition zeroLease :: "(int, nat) LeaseEventUnion" where
  "zeroLease =
     \<lparr> LeaseName = [], Slice = [], Region = [], RawLeaseName = [],
       AcquisitionDurationSeconds = 0, ReleaseDurationSeconds = 0,
       LeasesRemainingAtAcquisition = 0, LeasesAvailableAtRelease = 0, LeasesTotal = 0,
       Released = False, LeaseEventUnion.Error = [], LeaseEventUnion.Timestamp = 0 \<rparr>"

definition zeroImage :: "(int, nat) ImageEventUnion" where
  "zeroImage =
     \<lparr> Namespace = [], ImageStreamName = [], FullName = [], TagName = [], FullTagName = [],
       SourceImage = [], SourceImageKind = [], StartTime = 0, CompletionTime = 0,
       DurationSeconds = 0, RetryCount = 0, Success = False, ImageEventUnion.Error = [],
       ImageStreamDetails = [], AdditionalContext = [], ImageEventUnion.Timestamp = 0 \<rparr>"

definition exDoc :: "(int, nat, string, string, string, string, string) MetricsData" where
  "exDoc =
     \<lparr> Events = [], Images = [zeroImage], Leases = [exLease], Nodes = [],
       OpenshiftBuilds = [''build-1''], Pods = [], TestPlatformInsights = [] \<rparr>"

text \<open>
  A warehouse where the table \<^verbatim>\<open>images\<close> exists already (its creation answers 409) and
  every write to \<^verbatim>\<open>leases\<close> fails.
\<close>

definition exLoader :: "(int, nat, string, string, string, string, string) BigQueryLoader" where
  "exLoader =
     \<lparr> bqClient = (\<lambda>h call. case call of
          TableCreate table \<Rightarrow>
            if table = ''images'' then Some (GoogleAPIError 409 ''Already Exists'') else None
        | InserterPut table rws \<Rightarrow>
            if table = ''leases'' then Some (ErrorString ''quota exceeded'') else None),
       InferSchema = (\<lambda>structType. None) \<rparr>"

text \<open>
  A warehouse where the table \<^verbatim>\<open>images\<close> exists already and nothing fails, and one where
  the creation of \<^verbatim>\<open>leases\<close> is refused.
\<close>

definition exConflictLoader ::
  "(int, nat, string, string, string, string, string) BigQueryLoader" where
  "exConflictLoader =
     \<lparr> bqClient = (\<lambda>h call. case call of
          TableCreate table \<Rightarrow>
            if table = ''images'' then Some (GoogleAPIError 409 ''Already Exists'') else None
        | InserterPut table rws \<Rightarrow> None),
       InferSchema = (\<lambda>structType. None) \<rparr>"

definition exForbiddenLoader ::
  "(int, nat, string, string, string, string, string) BigQueryLoader" where
  "exForbiddenLoader =
     \<lparr> bqClient = (\<lambda>h call. case call of
          TableCreate table \<Rightarrow>
            if table = ''leases'' then Some (GoogleAPIError 403 ''Forbidden'') else None
        | InserterPut table rws \<Rightarrow> None),
       InferSchema = (\<lambda>structType. None) \<rparr>"

text \<open>
  A document with leases, pods, insights and events; a warehouse where nothing fails; a
  runtime where nothing fails, paths are joined with a slash, a pass-through record (a
  string here) is its own JSON text and the text of a union record lists its member names;
  an empty file system, and one where \<^verbatim>\<open>out/pods.json\<close> is left from an earlier export.
\<close>

definition exDoc2 :: "(int, nat, string, string, string, string, string) MetricsData" where
  "exDoc2 =
     \<lparr> Events = [''event-1''], Images = [], Leases = [exLease], Nodes = [],
       OpenshiftBuilds = [], Pods = [''pod-a'', ''pod-b''],
       TestPlatformInsights = [''insight-1''] \<rparr>"

definition emptyDoc :: "(int, nat, string, string, string, string, string) MetricsData" where
  "emptyDoc =
     \<lparr> Events = [], Images = [], Leases = [], Nodes = [], OpenshiftBuilds = [], Pods = [],
       TestPlatformInsights = [] \<rparr>"

definition exOkLoader :: "(int, nat, string, string, string, string, string) BigQueryLoader" where
  "exOkLoader = \<lparr> bqClient = (\<lambda>h call. None), InferSchema = (\<lambda>structType. None) \<rparr>"

definition exRuntime :: "(int, nat, string, string, string, string, string) runtime" where
  "exRuntime =
     \<lparr> storageNewClient = None,
       storageNewReader = (\<lambda>bucket object. Inr ''{}''),
       jsonDecode = (\<lambda>bytes. Inr emptyDoc),
       osCall = (\<lambda>fs call. None),
       filepathJoin = (\<lambda>dir name. dir @ ''/'' @ name),
       jsonText = (\<lambda>v. Inr (concat (map (\<lambda>k. k @ '' '') (objectKeys v)))),
       marshalNode = Inr, marshalBuild = Inr, marshalPod = Inr, marshalInsights = Inr,
       marshalEvent = Inr \<rparr>"

definition emptyFs :: fsys where
  "emptyFs = \<lparr> files = Map.empty, fsLog = [] \<rparr>"

definition staleFs :: fsys where
  "staleFs = \<lparr> files = [''out/pods.json'' \<mapsto> ''old-pod'' @ [CHR 0x0A]], fsLog = [] \<rparr>"

section \<open>Properties\<close>

subsection \<open>The admission predicate\<close>

lemma HasSuffix_iff: "HasSuffix s suffix \<longleftrightarrow> (\<exists>p. s = p @ suffix)"
proof
  assume h: "HasSuffix s suffix"
  then have "take (length s - length suffix) s @ suffix = s"
    by (metis HasSuffix_def append_take_drop_id)
  then show "\<exists>p. s = p @ suffix" by metis
next
  assume "\<exists>p. s = p @ suffix"
  then show "HasSuffix s suffix" by (auto simp: HasSuffix_def)
qed

text \<open>
  C5.  For every object name \<open>n\<close>, \<open>IsMetricsFile n\<close> is true exactly when \<open>n\<close> ends with
  the literal suffix \<^verbatim>\<open>ci-operator-metrics.json\<close>; it is false for \<^verbatim>\<open>foo.json\<close> and true
  for \<^verbatim>\<open>path/to/ci-operator-metrics.json\<close>.
\<close>

theorem IsMetricsFile_suffix:
  "(IsMetricsFile n \<longleftrightarrow> (\<exists>p. n = p @ ''ci-operator-metrics.json''))
   \<and> \<not> IsMetricsFile ''foo.json''
   \<and> IsMetricsFile ''path/to/ci-operator-metrics.json''"
proof -
  have a: "IsMetricsFile n \<longleftrightarrow> (\<exists>p. n = p @ ''ci-operator-metrics.json'')"
    by (simp add: IsMetricsFile_def MetricsFileName_def HasSuffix_iff)
  have b: "\<not> IsMetricsFile ''foo.json''"
    by (simp add: IsMetricsFile_def MetricsFileName_def HasSuffix_def)
  have c: "IsMetricsFile ''path/to/ci-operator-metrics.json''"
    by (simp add: IsMetricsFile_def MetricsFileName_def HasSuffix_def)
  from a b c show ?thesis by blast
qed

subsection \<open>The warehouse sink\<close>

lemma loadCategories_Nil_fun: "loadCategories b data [] = Pair None"
  by (rule ext) simp

lemma loadCategories_Cons_fun:
  "loadCategories b data (c # cs) =
     (\<lambda>h. andThen (wrapErr (''failed to load '' @ catName c) (loadCategory b data c h))
            (loadCategories b data cs))"
  by (rule ext) simp

lemma LoadMetricsData_loadCategories:
  "LoadMetricsData b data h = loadCategories b data loadOrder h"
  by (simp add: LoadMetricsData_def loadOrder_def loadCategory_def loadImages_def
      loadNodes_def loadInsights_def loadLeases_def loadBuilds_def loadPods_def loadEvents_def
      loadCategories_Nil_fun loadCategories_Cons_fun)

lemma loadCategory_cases:
  assumes "loadCategory b data c h = (r, h')"
  obtains
    (empty) "\<not> nonEmpty data c" "r = None" "h' = h"
  | (infer) e where "nonEmpty data c" "InferSchema b (structType c) = Some e"
      "r = Some (Wrapped ''failed to infer schema'' e)" "h' = h"
  | (create) e where "nonEmpty data c" "InferSchema b (structType c) = None"
      "\<not> isAlreadyExistsError (Some e)"
      "r = Some (Wrapped ''failed to create table'' e)"
      "h' = h @ [(TableCreate (destName c), Some e)]"
  | (put) a e where "nonEmpty data c" "InferSchema b (structType c) = None"
      "a = None \<or> isAlreadyExistsError a"
      "r = Some (Wrapped (''failed to insert '' @ catName c) e)"
      "h' = h @ [(TableCreate (destName c), a), (InserterPut (destName c) (catRows data c), Some e)]"
  | (ok) a where "nonEmpty data c" "InferSchema b (structType c) = None"
      "a = None \<or> isAlreadyExistsError a"
      "r = None"
      "h' = h @ [(TableCreate (destName c), a), (InserterPut (destName c) (catRows data c), None)]"
  using assms
  unfolding loadCategory_def loadTable_def nonEmpty_def tableCreate_def inserterPut_def wrapErr_def Let_def
  by (auto split: if_splits option.splits prod.splits)

lemma andThen_None [simp]: "andThen (None, s) k = k s"
  by (simp add: andThen_def)

lemma andThen_Some [simp]: "andThen (Some e, s) k = (Some e, s)"
  by (simp add: andThen_def)

lemma wrapErr_None [simp]: "wrapErr msg (None, s) = (None, s)"
  by (simp add: wrapErr_def)

lemma wrapErr_Some [simp]: "wrapErr msg (Some e, s) = (Some (Wrapped msg e), s)"
  by (simp add: wrapErr_def)

lemma loadCategories_success:
  "loadCategories b data cs h = (None, h') \<Longrightarrow>
     \<exists>new. h' = h @ new \<and> map fst new = expectedCalls data cs \<and> set (putAnswers new) \<subseteq> {None}"
proof (induction cs arbitrary: h)
  case Nil
  then show ?case by (simp add: expectedCalls_def putAnswers_def)
next
  case (Cons c cs)
  obtain r1 h1 where step: "loadCategory b data c h = (r1, h1)"
    by (cases "loadCategory b data c h")
  show ?case
  proof (cases r1)
    case (Some e)
    with Cons.prems step show ?thesis by simp
  next
    case None
    with Cons.prems step have rest: "loadCategories b data cs h1 = (None, h')" by simp
    from Cons.IH [OF rest] obtain new where
      new: "h' = h1 @ new" "map fst new = expectedCalls data cs" "set (putAnswers new) \<subseteq> {None}"
      by blast
    from step None show ?thesis
    proof (cases rule: loadCategory_cases)
      case empty
      with new show ?thesis
        by (auto simp: expectedCalls_def categoryCalls_def)
    next
      case (ok a)
      let ?ext = "[(TableCreate (destName c), a), (InserterPut (destName c) (catRows data c), None)]"
      have "h' = h @ (?ext @ new)" using ok new by simp
      moreover have "map fst (?ext @ new) = expectedCalls data (c # cs)"
        using ok new by (simp add: expectedCalls_def categoryCalls_def)
      moreover have "set (putAnswers (?ext @ new)) \<subseteq> {None}"
        using new by (auto simp: putAnswers_def)
      ultimately show ?thesis by blast
    qed simp_all
  qed
qed

lemma loadCategories_failure:
  "loadCategories b data cs h = (Some err, h') \<Longrightarrow>
     \<exists>pre X post hm e0. cs = pre @ X # post
        \<and> loadCategories b data pre h = (None, hm)
        \<and> loadCategory b data X hm = (Some e0, h')
        \<and> err = Wrapped (''failed to load '' @ catName X) e0"
proof (induction cs arbitrary: h)
  case Nil
  then show ?case by simp
next
  case (Cons c cs)
  obtain r1 h1 where step: "loadCategory b data c h = (r1, h1)"
    by (cases "loadCategory b data c h")
  show ?case
  proof (cases r1)
    case (Some e)
    with Cons.prems step have "err = Wrapped (''failed to load '' @ catName c) e" "h' = h1"
      by simp_all
    with step Some have "c # cs = [] @ c # cs \<and> loadCategories b data [] h = (None, h)
        \<and> loadCategory b data c h = (Some e, h')
        \<and> err = Wrapped (''failed to load '' @ catName c) e"
      by simp
    then show ?thesis by blast
  next
    case None
    with Cons.prems step have rest: "loadCategories b data cs h1 = (Some err, h')" by simp
    from Cons.IH [OF rest] obtain pre X post hm e0 where
      split: "cs = pre @ X # post" "loadCategories b data pre h1 = (None, hm)"
        "loadCategory b data X hm = (Some e0, h')"
        "err = Wrapped (''failed to load '' @ catName X) e0"
      by blast
    have "c # cs = (c # pre) @ X # post" using split by simp
    moreover have "loadCategories b data (c # pre) h = (None, hm)"
      using step None split by simp
    ultimately show ?thesis using split by blast
  qed
qed

lemma destName_inj: "destName X = destName Y \<Longrightarrow> X = Y"
  by (cases X; cases Y; simp)

lemma putAnswers_mem: "(InserterPut t rws, a) \<in> set tr \<Longrightarrow> a \<in> set (putAnswers tr)"
  by (force simp: putAnswers_def)

lemma takeWhile_until:
  "X \<notin> set pre \<Longrightarrow> takeWhile (\<lambda>c. c \<noteq> X) (pre @ X # post) = pre"
  by (induction pre) auto

lemma put_failure_general:
  assumes dist: "distinct cs"
    and run: "loadCategories b data cs h = (r, h')"
    and fails: "(InserterPut (destName X) rws, Some e) \<in> set (drop (length h) h')"
  shows "r = Some (Wrapped (''failed to load '' @ catName X)
                    (Wrapped (''failed to insert '' @ catName X) e))
       \<and> map fst (drop (length h) h') =
           expectedCalls data (takeWhile (\<lambda>c. c \<noteq> X) cs)
             @ [TableCreate (destName X), InserterPut (destName X) (catRows data X)]
       \<and> set (putAnswers (butlast (drop (length h) h'))) \<subseteq> {None}
       \<and> rws = catRows data X"
proof (cases r)
  case None
  with run obtain new where new: "h' = h @ new" "set (putAnswers new) \<subseteq> {None}"
    using loadCategories_success by blast
  with fails have "Some e \<in> set (putAnswers new)" by (simp add: putAnswers_mem)
  with new show ?thesis by auto
next
  case (Some err)
  with run obtain pre Y post hm e0 where
    split: "cs = pre @ Y # post" "loadCategories b data pre h = (None, hm)"
      "loadCategory b data Y hm = (Some e0, h')"
      "err = Wrapped (''failed to load '' @ catName Y) e0"
    using loadCategories_failure by blast
  from loadCategories_success [OF split(2)] obtain new0 where
    new0: "hm = h @ new0" "map fst new0 = expectedCalls data pre"
      "set (putAnswers new0) \<subseteq> {None}"
    by blast
  have notin0: "(InserterPut (destName X) rws, Some e) \<notin> set new0"
    using new0(3) putAnswers_mem by fastforce
  from dist split(1) have Ypre: "Y \<notin> set pre" by simp
  from split(3) show ?thesis
  proof (cases rule: loadCategory_cases)
    case empty
    then show ?thesis by simp
  next
    case (infer e1)
    with fails new0 notin0 show ?thesis by simp
  next
    case (create e1)
    with fails new0 notin0 show ?thesis by simp
  next
    case (put a e1)
    with fails new0 notin0 have eq: "destName X = destName Y" "rws = catRows data Y" "e = e1"
      by auto
    then have XY: "X = Y" using destName_inj by blast
    have tw: "takeWhile (\<lambda>c. c \<noteq> X) cs = pre"
      using split(1) Ypre XY by (simp add: takeWhile_until)
    have d: "drop (length h) h' = new0 @ [(TableCreate (destName Y), a),
        (InserterPut (destName Y) (catRows data Y), Some e1)]"
      using put new0 by simp
    have bl: "butlast (drop (length h) h') = new0 @ [(TableCreate (destName Y), a)]"
      unfolding d by (simp add: butlast_append)
    have "set (putAnswers (butlast (drop (length h) h'))) \<subseteq> {None}"
      unfolding bl using new0(3) by (auto simp: putAnswers_def)
    moreover have "r = Some (Wrapped (''failed to load '' @ catName X)
                    (Wrapped (''failed to insert '' @ catName X) e))"
      using Some split(4) put eq XY by simp
    moreover have "map fst (drop (length h) h') =
           expectedCalls data (takeWhile (\<lambda>c. c \<noteq> X) cs)
             @ [TableCreate (destName X), InserterPut (destName X) (catRows data X)]"
      unfolding d tw using new0(2) XY by simp
    ultimately show ?thesis using eq XY by simp
  next
    case (ok a)
    then show ?thesis by simp
  qed
qed

text \<open>
  C2.  Whenever the warehouse write of a category \<open>X\<close> fails during \<open>LoadMetricsData\<close>, the
  error returned wraps the literal name of \<open>X\<close>; the calls of the pass are the creation and
  the write of every non-empty category before \<open>X\<close> in the order images, nodes, insights,
  leases, builds, pods, events, each of these writes answered without error, followed by
  the creation and the failed write of \<open>X\<close>; nothing is called for a category after \<open>X\<close>.
\<close>

theorem LoadMetricsData_write_failure:
  assumes run: "LoadMetricsData b data h = (r, h')"
    and fails: "(InserterPut (destName X) rws, Some e) \<in> set (drop (length h) h')"
  shows "r = Some (Wrapped (''failed to load '' @ catName X)
                    (Wrapped (''failed to insert '' @ catName X) e))
       \<and> map fst (drop (length h) h') =
           expectedCalls data (takeWhile (\<lambda>c. c \<noteq> X) loadOrder)
             @ [TableCreate (destName X), InserterPut (destName X) (catRows data X)]
       \<and> set (putAnswers (butlast (drop (length h) h'))) \<subseteq> {None}
       \<and> rws = catRows data X"
proof -
  have "distinct loadOrder" by (simp add: loadOrder_def)
  moreover from run have "loadCategories b data loadOrder h = (r, h')"
    by (simp add: LoadMetricsData_loadCategories)
  ultimately show ?thesis using fails by (rule put_failure_general)
qed

theorem LoadMetricsData_write_failure_witness:
  "LoadMetricsData exLoader exDoc [] =
     (Some (Wrapped ''failed to load leases''
              (Wrapped ''failed to insert leases'' (ErrorString ''quota exceeded''))),
      [(TableCreate ''images'', Some (GoogleAPIError 409 ''Already Exists'')),
       (InserterPut ''images'' (ImageRows [zeroImage]), None),
       (TableCreate ''leases'', None),
       (InserterPut ''leases'' (LeaseRows [exLease]), Some (ErrorString ''quota exceeded''))])
   \<and> expectedCalls exDoc (takeWhile (\<lambda>c. c \<noteq> CatLeases) loadOrder) =
       [TableCreate ''images'', InserterPut ''images'' (ImageRows [zeroImage])]"
proof -
  let ?h = "[(TableCreate ''images'', Some (GoogleAPIError 409 ''Already Exists'')),
       (InserterPut ''images'' (ImageRows [zeroImage]), None),
       (TableCreate ''leases'', None),
       (InserterPut ''leases'' (LeaseRows [exLease]), Some (ErrorString ''quota exceeded''))]"
  have run: "LoadMetricsData exLoader exDoc [] =
     (Some (Wrapped ''failed to load leases''
              (Wrapped ''failed to insert leases'' (ErrorString ''quota exceeded''))), ?h)"
    by (simp add: LoadMetricsData_def loadImages_def loadNodes_def loadInsights_def
        loadLeases_def loadBuilds_def loadPods_def loadEvents_def loadTable_def tableCreate_def
        inserterPut_def exLoader_def exDoc_def isAlreadyExistsError_def StatusConflict_def Let_def)
  have fails: "(InserterPut (destName CatLeases) (LeaseRows [exLease]),
       Some (ErrorString ''quota exceeded'')) \<in> set (drop (length []) ?h)"
    by simp
  from LoadMetricsData_write_failure [OF run fails] run show ?thesis
    by simp
qed

lemma loadCategories_extends:
  "loadCategories b data cs h = (r, h') \<Longrightarrow> \<exists>new. h' = h @ new"
proof (induction cs arbitrary: h)
  case Nil
  then show ?case by simp
next
  case (Cons c cs)
  obtain r1 h1 where step: "loadCategory b data c h = (r1, h1)"
    by (cases "loadCategory b data c h")
  then obtain ext where ext: "h1 = h @ ext"
    by (cases rule: loadCategory_cases) simp_all
  show ?case
  proof (cases r1)
    case (Some e)
    with Cons.prems step ext show ?thesis by auto
  next
    case None
    with Cons.prems step have "loadCategories b data cs h1 = (r, h')" by simp
    from Cons.IH [OF this] ext show ?thesis by auto
  qed
qed

lemma loadCategories_success_tolerated:
  "loadCategories b data cs h = (None, h') \<Longrightarrow> list_all tolerated (drop (length h) h')"
proof (induction cs arbitrary: h)
  case Nil
  then show ?case by simp
next
  case (Cons c cs)
  obtain r1 h1 where step: "loadCategory b data c h = (r1, h1)"
    by (cases "loadCategory b data c h")
  show ?case
  proof (cases r1)
    case (Some e)
    with Cons.prems step show ?thesis by simp
  next
    case None
    with Cons.prems step have rest: "loadCategories b data cs h1 = (None, h')" by simp
    from loadCategories_extends [OF rest] obtain new where new: "h' = h1 @ new" by blast
    from Cons.IH [OF rest] new have tol: "list_all tolerated new" by simp
    from step None show ?thesis
    proof (cases rule: loadCategory_cases)
      case empty
      with new tol show ?thesis by simp
    next
      case (ok a)
      then have "tolerated (TableCreate (destName c), a)"
        "tolerated (InserterPut (destName c) (catRows data c), None)"
        by (auto simp: tolerated_def)
      with ok new tol show ?thesis by simp
    qed simp_all
  qed
qed

lemma create_followed_by_put:
  assumes "loadCategories b data cs h = (r, h')"
    and "(TableCreate t, a) \<in> set (drop (length h) h')"
    and "a = None \<or> isAlreadyExistsError a"
  shows "\<exists>X pre a2 post. t = destName X \<and>
           drop (length h) h' =
             pre @ [(TableCreate t, a), (InserterPut t (catRows data X), a2)] @ post"
  using assms
proof (induction cs arbitrary: h)
  case Nil
  then show ?case by simp
next
  case (Cons c cs)
  obtain r1 h1 where step: "loadCategory b data c h = (r1, h1)"
    by (cases "loadCategory b data c h")
  have rest: "r1 = None \<Longrightarrow> loadCategories b data cs h1 = (r, h')"
    using Cons.prems(1) step by simp
  have stop: "r1 \<noteq> None \<Longrightarrow> h' = h1"
    using Cons.prems(1) step by auto
  from step show ?case
  proof (cases rule: loadCategory_cases)
    case empty
    with rest have run: "loadCategories b data cs h = (r, h')" by simp
    from Cons.IH [OF run Cons.prems(2) Cons.prems(3)] show ?thesis .
  next
    case (infer e)
    with stop Cons.prems(2) show ?thesis by simp
  next
    case (create e)
    with stop Cons.prems(2,3) show ?thesis by auto
  next
    case (put a1 e)
    with stop have "drop (length h) h' =
        [] @ [(TableCreate (destName c), a1), (InserterPut (destName c) (catRows data c), Some e)] @ []"
      by simp
    moreover from this Cons.prems(2) have "t = destName c" "a = a1" by auto
    ultimately show ?thesis by blast
  next
    case (ok a1)
    let ?ext = "[(TableCreate (destName c), a1), (InserterPut (destName c) (catRows data c), None)]"
    from ok rest have run: "loadCategories b data cs h1 = (r, h')" by simp
    from loadCategories_extends [OF run] obtain new where new: "h' = h1 @ new" by blast
    with ok have d: "drop (length h) h' = ?ext @ new" "drop (length h1) h' = new" by simp_all
    from Cons.prems(2) d have "(TableCreate t, a) \<in> set ?ext \<or> (TableCreate t, a) \<in> set new"
      by auto
    then show ?thesis
    proof
      assume "(TableCreate t, a) \<in> set ?ext"
      then have "t = destName c" "a = a1" by auto
      with d have "drop (length h) h' =
          [] @ [(TableCreate t, a), (InserterPut t (catRows data c), None)] @ new" by simp
      with \<open>t = destName c\<close> show ?thesis by blast
    next
      assume "(TableCreate t, a) \<in> set new"
      with d have "(TableCreate t, a) \<in> set (drop (length h1) h')" by simp
      from Cons.IH [OF run this Cons.prems(3)] obtain X pre a2 post where
        X: "t = destName X"
          "drop (length h1) h' = pre @ [(TableCreate t, a), (InserterPut t (catRows data X), a2)] @ post"
        by blast
      with d have "drop (length h) h' =
          (?ext @ pre) @ [(TableCreate t, a), (InserterPut t (catRows data X), a2)] @ post"
        by simp
      with X(1) show ?thesis by blast
    qed
  qed
qed

lemma create_failure_general:
  assumes dist: "distinct cs"
    and run: "loadCategories b data cs h = (r, h')"
    and fails: "(TableCreate (destName X), Some e) \<in> set (drop (length h) h')"
    and fatal: "\<not> isAlreadyExistsError (Some e)"
  shows "r = Some (Wrapped (''failed to load '' @ catName X)
                    (Wrapped ''failed to create table'' e))
       \<and> map fst (drop (length h) h') =
           expectedCalls data (takeWhile (\<lambda>c. c \<noteq> X) cs) @ [TableCreate (destName X)]"
proof (cases r)
  case None
  with run have "list_all tolerated (drop (length h) h')"
    using loadCategories_success_tolerated by blast
  with fails fatal show ?thesis
    by (auto simp: list_all_iff tolerated_def)
next
  case (Some err)
  with run obtain pre Y post hm e0 where
    split: "cs = pre @ Y # post" "loadCategories b data pre h = (None, hm)"
      "loadCategory b data Y hm = (Some e0, h')"
      "err = Wrapped (''failed to load '' @ catName Y) e0"
    using loadCategories_failure by blast
  from loadCategories_success [OF split(2)] obtain new0 where
    new0: "hm = h @ new0" "map fst new0 = expectedCalls data pre"
    by blast
  from loadCategories_success_tolerated [OF split(2)] new0
  have tol: "list_all tolerated new0" by simp
  have notin0: "(TableCreate (destName X), Some e) \<notin> set new0"
  proof
    assume "(TableCreate (destName X), Some e) \<in> set new0"
    with tol fatal show False by (auto simp: list_all_iff tolerated_def)
  qed
  from dist split(1) have Ypre: "Y \<notin> set pre" by simp
  from split(3) show ?thesis
  proof (cases rule: loadCategory_cases)
    case empty
    then show ?thesis by simp
  next
    case (infer e1)
    with fails new0 notin0 show ?thesis by simp
  next
    case (create e1)
    with fails new0 notin0 have eq: "destName X = destName Y" "e = e1" by auto
    then have XY: "X = Y" using destName_inj by blast
    have tw: "takeWhile (\<lambda>c. c \<noteq> X) cs = pre"
      using split(1) Ypre XY by (simp add: takeWhile_until)
    have d: "drop (length h) h' = new0 @ [(TableCreate (destName Y), Some e1)]"
      using create new0 by simp
    have "r = Some (Wrapped (''failed to load '' @ catName X)
                    (Wrapped ''failed to create table'' e))"
      using Some split(4) create eq XY by simp
    moreover have "map fst (drop (length h) h') =
           expectedCalls data (takeWhile (\<lambda>c. c \<noteq> X) cs) @ [TableCreate (destName X)]"
      unfolding d tw using new0(2) XY by simp
    ultimately show ?thesis by simp
  next
    case (put a e1)
    with fails new0 notin0 fatal show ?thesis by auto
  next
    case (ok a)
    then show ?thesis by simp
  qed
qed

lemma no_failure_success:
  assumes run: "loadCategories b data cs h = (r, h')"
    and infer: "list_all (\<lambda>c. InferSchema b (structType c) = None) (filter (nonEmpty data) cs)"
    and tol: "list_all tolerated (drop (length h) h')"
  shows "r = None"
proof (cases r)
  case None
  then show ?thesis .
next
  case (Some err)
  with run obtain pre Y post hm e0 where
    split: "cs = pre @ Y # post" "loadCategories b data pre h = (None, hm)"
      "loadCategory b data Y hm = (Some e0, h')"
    using loadCategories_failure by blast
  from loadCategories_extends [OF split(2)] obtain new0 where new0: "hm = h @ new0" by blast
  from split(3) show ?thesis
  proof (cases rule: loadCategory_cases)
    case empty
    then show ?thesis by simp
  next
    case (infer e1)
    with assms(2) split(1) show ?thesis by (auto simp: list_all_iff)
  next
    case (create e1)
    with tol new0 show ?thesis by (simp add: tolerated_def)
  next
    case (put a e1)
    with tol new0 show ?thesis by (simp add: tolerated_def)
  next
    case (ok a)
    then show ?thesis by simp
  qed
qed

text \<open>
  C4.  In a pass of \<open>LoadMetricsData\<close>, a creation answered with the already-exists error
  (HTTP 409) is followed by the write of the same category exactly as a creation answered
  without error is; when schema inference succeeds and every answer of the pass is nil or
  such a 409 to a creation, the pass returns nil.  A creation answered with any other error
  is the last call of the pass: the result wraps that error under the category's name, and
  the calls made are those of the non-empty categories before it and the failed creation.
\<close>

theorem TableCreate_conflict_tolerated:
  assumes run: "LoadMetricsData b data h = (r, h')"
  shows
   "((TableCreate (destName X), a) \<in> set (drop (length h) h')
       \<and> (a = None \<or> isAlreadyExistsError a) \<longrightarrow>
       (\<exists>pre a2 post. drop (length h) h' =
          pre @ [(TableCreate (destName X), a),
                 (InserterPut (destName X) (catRows data X), a2)] @ post))
    \<and> (list_all (\<lambda>c. InferSchema b (structType c) = None) (filter (nonEmpty data) loadOrder)
       \<and> list_all tolerated (drop (length h) h') \<longrightarrow> r = None)
    \<and> ((TableCreate (destName X), Some e) \<in> set (drop (length h) h')
       \<and> \<not> isAlreadyExistsError (Some e) \<longrightarrow>
       r = Some (Wrapped (''failed to load '' @ catName X)
                  (Wrapped ''failed to create table'' e))
       \<and> map fst (drop (length h) h') =
           expectedCalls data (takeWhile (\<lambda>c. c \<noteq> X) loadOrder)
             @ [TableCreate (destName X)])"
proof -
  have dist: "distinct loadOrder" by (simp add: loadOrder_def)
  from run have cats: "loadCategories b data loadOrder h = (r, h')"
    by (simp add: LoadMetricsData_loadCategories)
  have one: "\<exists>pre a2 post. drop (length h) h' =
          pre @ [(TableCreate (destName X), a),
                 (InserterPut (destName X) (catRows data X), a2)] @ post"
    if mem: "(TableCreate (destName X), a) \<in> set (drop (length h) h')"
      and ok: "a = None \<or> isAlreadyExistsError a"
  proof -
    from create_followed_by_put [OF cats mem ok] obtain Y pre a2 post where
      Y: "destName X = destName Y"
        "drop (length h) h' =
           pre @ [(TableCreate (destName X), a),
                  (InserterPut (destName X) (catRows data Y), a2)] @ post"
      by blast
    from Y(1) have "X = Y" by (rule destName_inj)
    with Y(2) show ?thesis by blast
  qed
  have two: "r = None"
    if "list_all (\<lambda>c. InferSchema b (structType c) = None) (filter (nonEmpty data) loadOrder)"
      and "list_all tolerated (drop (length h) h')"
    using cats that by (rule no_failure_success)
  have three: "r = Some (Wrapped (''failed to load '' @ catName X)
                  (Wrapped ''failed to create table'' e))
       \<and> map fst (drop (length h) h') =
           expectedCalls data (takeWhile (\<lambda>c. c \<noteq> X) loadOrder)
             @ [TableCreate (destName X)]"
    if "(TableCreate (destName X), Some e) \<in> set (drop (length h) h')"
      and "\<not> isAlreadyExistsError (Some e)"
    using dist cats that by (rule create_failure_general)
  from one two three show ?thesis by blast
qed

theorem TableCreate_conflict_tolerated_witness:
  "isAlreadyExistsError (Some (GoogleAPIError 409 ''Already Exists''))
   \<and> LoadMetricsData exConflictLoader exDoc [] =
       (None,
        [(TableCreate ''images'', Some (GoogleAPIError 409 ''Already Exists'')),
         (InserterPut ''images'' (ImageRows [zeroImage]), None),
         (TableCreate ''leases'', None),
         (InserterPut ''leases'' (LeaseRows [exLease]), None),
         (TableCreate ''openshift_builds'', None),
         (InserterPut ''openshift_builds'' (BuildRows [''build-1'']), None)])
   \<and> \<not> isAlreadyExistsError (Some (GoogleAPIError 403 ''Forbidden''))
   \<and> LoadMetricsData exForbiddenLoader exDoc [] =
       (Some (Wrapped ''failed to load leases''
                (Wrapped ''failed to create table'' (GoogleAPIError 403 ''Forbidden''))),
        [(TableCreate ''images'', None),
         (InserterPut ''images'' (ImageRows [zeroImage]), None),
         (TableCreate ''leases'', Some (GoogleAPIError 403 ''Forbidden''))])
   \<and> expectedCalls exDoc (takeWhile (\<lambda>c. c \<noteq> CatLeases) loadOrder) =
       [TableCreate ''images'', InserterPut ''images'' (ImageRows [zeroImage])]"
proof -
  let ?conflict = "Some (GoogleAPIError 409 ''Already Exists'')"
  let ?forbidden = "GoogleAPIError 403 ''Forbidden''"
  let ?h1 = "[(TableCreate ''images'', ?conflict),
         (InserterPut ''images'' (ImageRows [zeroImage]), None),
         (TableCreate ''leases'', None),
         (InserterPut ''leases'' (LeaseRows [exLease]), None),
         (TableCreate ''openshift_builds'', None),
         (InserterPut ''openshift_builds'' (BuildRows [''build-1'']), None)]"
  let ?h2 = "[(TableCreate ''images'', None),
         (InserterPut ''images'' (ImageRows [zeroImage]), None),
         (TableCreate ''leases'', Some ?forbidden)]"
  have c409: "isAlreadyExistsError ?conflict"
    by (simp add: isAlreadyExistsError_def StatusConflict_def)
  have c403: "\<not> isAlreadyExistsError (Some ?forbidden)"
    by (simp add: isAlreadyExistsError_def StatusConflict_def)
  have run1: "LoadMetricsData exConflictLoader exDoc [] = (r1, ?h1)" if "r1 = None" for r1
    using that
    by (simp add: LoadMetricsData_def loadImages_def loadNodes_def loadInsights_def
        loadLeases_def loadBuilds_def loadPods_def loadEvents_def loadTable_def tableCreate_def
        inserterPut_def exConflictLoader_def exDoc_def isAlreadyExistsError_def
        StatusConflict_def Let_def)
  have run2: "LoadMetricsData exForbiddenLoader exDoc [] =
       (Some (Wrapped ''failed to load leases'' (Wrapped ''failed to create table'' ?forbidden)),
        ?h2)"
    by (simp add: LoadMetricsData_def loadImages_def loadNodes_def loadInsights_def
        loadLeases_def loadBuilds_def loadPods_def loadEvents_def loadTable_def tableCreate_def
        inserterPut_def exForbiddenLoader_def exDoc_def isAlreadyExistsError_def
        StatusConflict_def Let_def)
  have mem1: "(TableCreate (destName CatImages), ?conflict) \<in> set (drop (length []) ?h1)"
    by simp
  have infer1: "list_all (\<lambda>c. InferSchema exConflictLoader (structType c) = None)
      (filter (nonEmpty exDoc) loadOrder)"
    by (simp add: exConflictLoader_def loadOrder_def)
  have tol1: "list_all tolerated (drop (length []) ?h1)"
    using c409 by (simp add: tolerated_def)
  have mem2: "(TableCreate (destName CatLeases), Some ?forbidden) \<in> set (drop (length []) ?h2)"
    by simp
  note t1 = TableCreate_conflict_tolerated [OF run1 [OF refl], where X = CatImages and a = ?conflict]
  note t2 = TableCreate_conflict_tolerated [OF run2, where X = CatLeases and e = ?forbidden]
  note follows = t1 [THEN conjunct1, THEN mp, OF conjI [OF mem1 disjI2 [OF c409]]]
  note succeeds = t1 [THEN conjunct2, THEN conjunct1, THEN mp, OF conjI [OF infer1 tol1]]
  note aborts = t2 [THEN conjunct2, THEN conjunct2, THEN mp, OF conjI [OF mem2 c403]]
  from aborts have
    "expectedCalls exDoc (takeWhile (\<lambda>c. c \<noteq> CatLeases) loadOrder) @ [TableCreate ''leases'']
       = map fst ?h2"
    by simp
  with c409 c403 run1 [OF refl] run2 show ?thesis by simp
qed

subsection \<open>Serialization of the union records: properties\<close>

lemma mem_omitempty_keys:
  "k \<in> fst ` set (omitempty isEmpty key v) \<longleftrightarrow> \<not> isEmpty \<and> k = key"
  by (simp add: omitempty_def)

lemma lease_key_mem:
  "k \<in> set (objectKeys (marshalLease l)) \<longleftrightarrow>
     k = ''timestamp''
     \<or> (LeaseName l \<noteq> [] \<and> k = ''name'')
     \<or> (Slice l \<noteq> [] \<and> k = ''slice'')
     \<or> (Region l \<noteq> [] \<and> k = ''region'')
     \<or> (RawLeaseName l \<noteq> [] \<and> k = ''raw_lease_name'')
     \<or> (AcquisitionDurationSeconds l \<noteq> 0 \<and> k = ''acquisition_duration_seconds'')
     \<or> (ReleaseDurationSeconds l \<noteq> 0 \<and> k = ''release_duration_seconds'')
     \<or> (LeasesRemainingAtAcquisition l \<noteq> 0 \<and> k = ''leases_remaining_at_acquisition'')
     \<or> (LeasesAvailableAtRelease l \<noteq> 0 \<and> k = ''leases_available_at_release'')
     \<or> (LeasesTotal l \<noteq> 0 \<and> k = ''leases_total'')
     \<or> (Released l \<and> k = ''released'')
     \<or> (LeaseEventUnion.Error l \<noteq> [] \<and> k = ''error'')"
  by (simp add: marshalLease_def mem_omitempty_keys emptyString_def emptyFloat_def
      emptyInt_def emptyBool_def image_Un)

lemma image_key_mem:
  "k \<in> set (objectKeys (marshalImage i)) \<longleftrightarrow>
     k = ''timestamp''
     \<or> (Namespace i \<noteq> [] \<and> k = ''namespace'')
     \<or> (ImageStreamName i \<noteq> [] \<and> k = ''image_stream_name'')
     \<or> (FullName i \<noteq> [] \<and> k = ''full_name'')
     \<or> (TagName i \<noteq> [] \<and> k = ''tag_name'')
     \<or> (FullTagName i \<noteq> [] \<and> k = ''full_tag_name'')
     \<or> (SourceImage i \<noteq> [] \<and> k = ''source_image'')
     \<or> (SourceImageKind i \<noteq> [] \<and> k = ''source_image_kind'')
     \<or> k = ''start_time''
     \<or> k = ''completion_time''
     \<or> (DurationSeconds i \<noteq> 0 \<and> k = ''duration_seconds'')
     \<or> (RetryCount i \<noteq> 0 \<and> k = ''retry_count'')
     \<or> (Success i \<and> k = ''success'')
     \<or> (ImageEventUnion.Error i \<noteq> [] \<and> k = ''error'')
     \<or> (ImageStreamDetails i \<noteq> [] \<and> k = ''image_stream_details'')
     \<or> (AdditionalContext i \<noteq> [] \<and> k = ''additional_context'')"
  by (simp add: marshalImage_def mem_omitempty_keys emptyString_def emptyFloat_def
      emptyInt_def emptyBool_def emptyMap_def emptyStruct_def image_Un)

text \<open>
  C3 (as amended).  In the serialized form of a lease or image union record, each field
  tagged \<^verbatim>\<open>omitempty\<close> that is a string, a number, a boolean or a map is present exactly
  when its value is not the zero value of its type, and the top-level timestamp is always
  present.  So a field set to its zero value is serialized as a field never set is: absent.
\<close>

theorem omitempty_present_iff_nonzero:
  "(''name'' \<in> set (objectKeys (marshalLease l)) \<longleftrightarrow> LeaseName l \<noteq> [])
   \<and> (''slice'' \<in> set (objectKeys (marshalLease l)) \<longleftrightarrow> Slice l \<noteq> [])
   \<and> (''region'' \<in> set (objectKeys (marshalLease l)) \<longleftrightarrow> Region l \<noteq> [])
   \<and> (''raw_lease_name'' \<in> set (objectKeys (marshalLease l)) \<longleftrightarrow> RawLeaseName l \<noteq> [])
   \<and> (''acquisition_duration_seconds'' \<in> set (objectKeys (marshalLease l))
        \<longleftrightarrow> AcquisitionDurationSeconds l \<noteq> 0)
   \<and> (''release_duration_seconds'' \<in> set (objectKeys (marshalLease l))
        \<longleftrightarrow> ReleaseDurationSeconds l \<noteq> 0)
   \<and> (''leases_remaining_at_acquisition'' \<in> set (objectKeys (marshalLease l))
        \<longleftrightarrow> LeasesRemainingAtAcquisition l \<noteq> 0)
   \<and> (''leases_available_at_release'' \<in> set (objectKeys (marshalLease l))
        \<longleftrightarrow> LeasesAvailableAtRelease l \<noteq> 0)
   \<and> (''leases_total'' \<in> set (objectKeys (marshalLease l)) \<longleftrightarrow> LeasesTotal l \<noteq> 0)
   \<and> (''released'' \<in> set (objectKeys (marshalLease l)) \<longleftrightarrow> Released l)
   \<and> (''error'' \<in> set (objectKeys (marshalLease l)) \<longleftrightarrow> LeaseEventUnion.Error l \<noteq> [])
   \<and> ''timestamp'' \<in> set (objectKeys (marshalLease l))
   \<and> (''namespace'' \<in> set (objectKeys (marshalImage i)) \<longleftrightarrow> Namespace i \<noteq> [])
   \<and> (''image_stream_name'' \<in> set (objectKeys (marshalImage i)) \<longleftrightarrow> ImageStreamName i \<noteq> [])
   \<and> (''full_name'' \<in> set (objectKeys (marshalImage i)) \<longleftrightarrow> FullName i \<noteq> [])
   \<and> (''tag_name'' \<in> set (objectKeys (marshalImage i)) \<longleftrightarrow> TagName i \<noteq> [])
   \<and> (''full_tag_name'' \<in> set (objectKeys (marshalImage i)) \<longleftrightarrow> FullTagName i \<noteq> [])
   \<and> (''source_image'' \<in> set (objectKeys (marshalImage i)) \<longleftrightarrow> SourceImage i \<noteq> [])
   \<and> (''source_image_kind'' \<in> set (objectKeys (marshalImage i)) \<longleftrightarrow> SourceImageKind i \<noteq> [])
   \<and> (''duration_seconds'' \<in> set (objectKeys (marshalImage i)) \<longleftrightarrow> DurationSeconds i \<noteq> 0)
   \<and> (''retry_count'' \<in> set (objectKeys (marshalImage i)) \<longleftrightarrow> RetryCount i \<noteq> 0)
   \<and> (''success'' \<in> set (objectKeys (marshalImage i)) \<longleftrightarrow> Success i)
   \<and> (''error'' \<in> set (objectKeys (marshalImage i)) \<longleftrightarrow> ImageEventUnion.Error i \<noteq> [])
   \<and> (''image_stream_details'' \<in> set (objectKeys (marshalImage i))
        \<longleftrightarrow> ImageStreamDetails i \<noteq> [])
   \<and> (''additional_context'' \<in> set (objectKeys (marshalImage i))
        \<longleftrightarrow> AdditionalContext i \<noteq> [])
   \<and> ''timestamp'' \<in> set (objectKeys (marshalImage i))"
  by (simp add: lease_key_mem image_key_mem)

text \<open>
  C3 as stated fails: a lease whose \<^verbatim>\<open>leases_available_at_release\<close> has been set to 0
  serializes to the very output of the lease on which nothing was set, the key being absent
  from both.
\<close>

theorem zero_value_serialized_as_unset:
  "marshalLease (zeroLease\<lparr>LeasesAvailableAtRelease := 0\<rparr>) = marshalLease zeroLease
   \<and> ''leases_available_at_release''
        \<notin> set (objectKeys (marshalLease (zeroLease\<lparr>LeasesAvailableAtRelease := 0\<rparr>)))
   \<and> ''leases_available_at_release'' \<notin> set (objectKeys (marshalLease zeroLease))"
  by (simp add: lease_key_mem zeroLease_def)

text \<open>
  C9.  The top-level timestamp is present in the serialized form of every lease and image
  union record.  On the lease with every field zero it is the only member.  On the image
  record with every field zero it is not: \<^verbatim>\<open>start_time\<close> and \<^verbatim>\<open>completion_time\<close> are
  serialized too, their \<^verbatim>\<open>omitempty\<close> tags notwithstanding.
\<close>

theorem zero_image_time_fields_serialized:
  "objectKeys (marshalImage zeroImage) = [''start_time'', ''completion_time'', ''timestamp'']
   \<and> objectKeys (marshalLease zeroLease) = [''timestamp'']
   \<and> ''timestamp'' \<in> set (objectKeys (marshalLease l))
   \<and> ''timestamp'' \<in> set (objectKeys (marshalImage i))"
proof -
  have "objectKeys (marshalImage zeroImage) = [''start_time'', ''completion_time'', ''timestamp'']"
    by (simp add: marshalImage_def zeroImage_def omitempty_def emptyString_def emptyFloat_def
        emptyInt_def emptyBool_def emptyMap_def emptyStruct_def)
  moreover have "objectKeys (marshalLease zeroLease) = [''timestamp'']"
    by (simp add: marshalLease_def zeroLease_def omitempty_def emptyString_def emptyFloat_def
        emptyInt_def emptyBool_def)
  ultimately show ?thesis by (simp add: lease_key_mem image_key_mem)
qed

subsection \<open>The file-export sink\<close>

lemma exportAll_Nil_fun: "exportAll rt dir data [] = Pair None"
  by (rule ext) simp

lemma exportAll_Cons_fun:
  "exportAll rt dir data (c # cs) =
     (\<lambda>fs. andThen (exportCategory rt dir data c fs) (exportAll rt dir data cs))"
  by (rule ext) simp

lemma exportCategories_exportAll:
  "exportCategories rt dir data fs = exportAll rt dir data exportOrder fs"
  by (simp add: exportCategories_def exportOrder_def exportCategory_def nonEmpty_def
      exportAll_Nil_fun exportAll_Cons_fun)

lemma encoderEncode_cases:
  assumes "encoderEncode rt marshal path item fs = (r, fs')"
  obtains
    (marshal) e where "marshal item = Inl e" "r = Some e" "fs' = fs"
  | (wfail) s e where "marshal item = Inr s" "r = Some e"
      "files fs' = files fs" "fsLog fs' = fsLog fs @ [(Write path (s @ [CHR 0x0A]), Some e)]"
  | (ok) s where "marshal item = Inr s" "r = None"
      "files fs' = (files fs)(path \<mapsto> (case files fs path of None \<Rightarrow> [] | Some c \<Rightarrow> c) @ s @ [CHR 0x0A])"
      "fsLog fs' = fsLog fs @ [(Write path (s @ [CHR 0x0A]), None)]"
  using assms unfolding encoderEncode_def fileWrite_def Let_def
  by (auto split: sum.splits if_splits)

lemma encodeItems_success:
  assumes "encodeItems rt marshal path v fs = (None, fs')"
    and "files fs path = Some c"
  shows "files fs' = (files fs)(path \<mapsto> c @ concat (map (\<lambda>item. itemLine (marshal item)) v))
       \<and> fsLog fs' = fsLog fs @ map (\<lambda>item. (Write path (itemLine (marshal item)), None)) v
       \<and> list_all (\<lambda>item. \<not> isl (marshal item)) v"
  using assms
proof (induction v arbitrary: fs c)
  case Nil
  then show ?case by auto
next
  case (Cons item v)
  obtain r1 fs1 where step: "encoderEncode rt marshal path item fs = (r1, fs1)"
    by (cases "encoderEncode rt marshal path item fs")
  show ?case
  proof (cases r1)
    case (Some e)
    with Cons.prems step show ?thesis by simp
  next
    case None
    with Cons.prems step have rest: "encodeItems rt marshal path v fs1 = (None, fs')" by simp
    from step None obtain s where
      ok: "marshal item = Inr s"
        "files fs1 = (files fs)(path \<mapsto> c @ s @ [CHR 0x0A])"
        "fsLog fs1 = fsLog fs @ [(Write path (s @ [CHR 0x0A]), None)]"
      using Cons.prems(2) by (cases rule: encoderEncode_cases) auto
    from ok(2) have at: "files fs1 path = Some (c @ s @ [CHR 0x0A])" by simp
    note all = Cons.IH [OF rest at]
    note ih = all [THEN conjunct1] all [THEN conjunct2, THEN conjunct1]
      all [THEN conjunct2, THEN conjunct2]
    have "files fs' = (files fs)(path \<mapsto>
        c @ concat (map (\<lambda>item. itemLine (marshal item)) (item # v)))"
      unfolding ih(1) ok(2) using ok(1) by simp
    moreover have "fsLog fs' =
        fsLog fs @ map (\<lambda>item. (Write path (itemLine (marshal item)), None)) (item # v)"
      unfolding ih(2) ok(3) using ok(1) by simp
    moreover have "list_all (\<lambda>item. \<not> isl (marshal item)) (item # v)"
      using ih(3) ok(1) by simp
    ultimately show ?thesis by blast
  qed
qed

lemma exportTable_success:
  assumes "exportTable rt dir filename data fs = (None, fs')"
  shows "files fs' = (files fs)(filepathJoin rt dir filename \<mapsto> concat (rowsLines rt data))
       \<and> fsLog fs' = fsLog fs @ (Create (filepathJoin rt dir filename), None)
            # map (\<lambda>line. (Write (filepathJoin rt dir filename) line, None)) (rowsLines rt data)
       \<and> list_all (\<lambda>r. \<not> isl r) (rowsMarshal rt data)"
proof -
  let ?path = "filepathJoin rt dir filename"
  obtain r1 fs1 where cr: "osCreate rt ?path fs = (r1, fs1)"
    by (cases "osCreate rt ?path fs")
  with assms have r1: "r1 = None"
    by (cases r1) (simp_all add: exportTable_def)
  with cr have fs1: "files fs1 = (files fs)(?path \<mapsto> [])"
    "fsLog fs1 = fsLog fs @ [(Create ?path, None)]"
    by (auto simp: osCreate_def Let_def)
  then have at: "files fs1 ?path = Some []" by simp
  have enc: "\<And>marshal v. encodeItems rt marshal ?path v fs1 = (None, fs') \<Longrightarrow>
      files fs' = (files fs)(?path \<mapsto> concat (map (\<lambda>item. itemLine (marshal item)) v))
       \<and> fsLog fs' = fsLog fs @ (Create ?path, None)
            # map (\<lambda>item. (Write ?path (itemLine (marshal item)), None)) v
       \<and> list_all (\<lambda>item. \<not> isl (marshal item)) v"
    using encodeItems_success [OF _ at] fs1 by fastforce
  from assms cr r1 show ?thesis
    by (cases data)
      (auto simp: exportTable_def rowsLines_def list_all_iff comp_def dest!: enc)
qed

lemma exportCategory_success:
  assumes "exportCategory rt dir data c fs = (None, fs')"
  shows "files fs' = writtenFiles rt dir data [c] (files fs)
       \<and> fsLog fs' = fsLog fs @ map (\<lambda>call. (call, None)) (expectedFileCalls rt dir data [c])
       \<and> (nonEmpty data c \<longrightarrow> list_all (\<lambda>r. \<not> isl r) (rowsMarshal rt (catRows data c)))"
proof (cases "nonEmpty data c")
  case False
  with assms show ?thesis
    by (simp add: exportCategory_def expectedFileCalls_def)
next
  case True
  with assms obtain r where
    tab: "exportTable rt dir (destName c @ ''.json'') (catRows data c) fs = (r, fs')"
      and "wrapErr (''failed to export '' @ catName c) (r, fs') = (None, fs')"
    by (cases "exportTable rt dir (destName c @ ''.json'') (catRows data c) fs")
      (auto simp: exportCategory_def wrapErr_def split: option.splits)
  then have "r = None" by (cases r) simp_all
  with tab have "exportTable rt dir (destName c @ ''.json'') (catRows data c) fs = (None, fs')"
    by simp
  from exportTable_success [OF this] True show ?thesis
    by (simp add: expectedFileCalls_def categoryFileCalls_def exportPath_def comp_def)
qed

lemma expectedFileCalls_Cons:
  "expectedFileCalls rt dir data (c # cs) =
     expectedFileCalls rt dir data [c] @ expectedFileCalls rt dir data cs"
  by (simp add: expectedFileCalls_def)

lemma exportAll_success:
  "exportAll rt dir data cs fs = (None, fs') \<Longrightarrow>
     files fs' = writtenFiles rt dir data cs (files fs)
     \<and> fsLog fs' = fsLog fs @ map (\<lambda>call. (call, None)) (expectedFileCalls rt dir data cs)
     \<and> list_all (\<lambda>c. list_all (\<lambda>r. \<not> isl r) (rowsMarshal rt (catRows data c)))
           (filter (nonEmpty data) cs)"
proof (induction cs arbitrary: fs)
  case Nil
  then show ?case by (simp add: expectedFileCalls_def)
next
  case (Cons c cs)
  obtain r1 fs1 where step: "exportCategory rt dir data c fs = (r1, fs1)"
    by (cases "exportCategory rt dir data c fs")
  show ?case
  proof (cases r1)
    case (Some e)
    with Cons.prems step show ?thesis by simp
  next
    case None
    with Cons.prems step have rest: "exportAll rt dir data cs fs1 = (None, fs')" by simp
    note ih = Cons.IH [OF rest]
    from step None have "exportCategory rt dir data c fs = (None, fs1)" by simp
    note one = exportCategory_success [OF this]
    have "files fs' = writtenFiles rt dir data (c # cs) (files fs)"
      using ih [THEN conjunct1] one [THEN conjunct1] by simp
    moreover have "fsLog fs' =
        fsLog fs @ map (\<lambda>call. (call, None)) (expectedFileCalls rt dir data (c # cs))"
      using ih [THEN conjunct2, THEN conjunct1] one [THEN conjunct2, THEN conjunct1]
      by (simp add: expectedFileCalls_Cons [of _ _ _ c cs])
    moreover have "list_all (\<lambda>c. list_all (\<lambda>r. \<not> isl r) (rowsMarshal rt (catRows data c)))
           (filter (nonEmpty data) (c # cs))"
      using ih [THEN conjunct2, THEN conjunct2] one [THEN conjunct2, THEN conjunct2] by simp
    ultimately show ?thesis by blast
  qed
qed

lemma writtenFiles_map_add:
  "writtenFiles rt dir data cs m = m ++ writtenFiles rt dir data cs Map.empty"
proof (induction cs arbitrary: m)
  case Nil
  then show ?case by simp
next
  case (Cons c cs)
  show ?case
  proof (cases "nonEmpty data c")
    case False
    then show ?thesis using Cons.IH [of m] by simp
  next
    case True
    let ?k = "exportPath rt dir c"
    let ?v = "concat (rowsLines rt (catRows data c))"
    let ?E = "writtenFiles rt dir data cs Map.empty"
    have "writtenFiles rt dir data (c # cs) m = writtenFiles rt dir data cs (m(?k \<mapsto> ?v))"
      using True by simp
    also have "\<dots> = m(?k \<mapsto> ?v) ++ ?E" by (rule Cons.IH)
    also have "\<dots> = (m ++ [?k \<mapsto> ?v]) ++ ?E" by simp
    also have "\<dots> = m ++ ([?k \<mapsto> ?v] ++ ?E)" by simp
    also have "[?k \<mapsto> ?v] ++ ?E = writtenFiles rt dir data cs [?k \<mapsto> ?v]"
      by (rule Cons.IH [symmetric])
    also have "\<dots> = writtenFiles rt dir data (c # cs) Map.empty"
      using True by simp
    finally show ?thesis .
  qed
qed

lemma map_add_twice: "(m ++ n) ++ n = m ++ (n :: 'a \<rightharpoonup> 'b)"
  by (rule ext) (simp add: map_add_def split: option.splits)

lemma writtenFiles_idem:
  "writtenFiles rt dir data cs (writtenFiles rt dir data cs m) = writtenFiles rt dir data cs m"
proof -
  have "writtenFiles rt dir data cs (writtenFiles rt dir data cs m) =
      (m ++ writtenFiles rt dir data cs Map.empty) ++ writtenFiles rt dir data cs Map.empty"
    using writtenFiles_map_add [of rt dir data cs "writtenFiles rt dir data cs m"]
      writtenFiles_map_add [of rt dir data cs m] by simp
  also have "\<dots> = m ++ writtenFiles rt dir data cs Map.empty" by (rule map_add_twice)
  also have "\<dots> = writtenFiles rt dir data cs m" by (rule writtenFiles_map_add [symmetric])
  finally show ?thesis .
qed

lemma linesOf_line:
  "CHR 0x0A \<notin> set s \<Longrightarrow> linesOf cur (s @ CHR 0x0A # rest) = (cur @ s) # linesOf [] rest"
  by (induction s arbitrary: cur) auto

lemma linesOf_concat:
  "list_all (\<lambda>s. CHR 0x0A \<notin> set s) texts \<Longrightarrow>
     linesOf [] (concat (map (\<lambda>s. s @ [CHR 0x0A]) texts)) = texts"
proof (induction texts)
  case Nil
  then show ?case by simp
next
  case (Cons s texts)
  then have "linesOf [] (s @ CHR 0x0A # concat (map (\<lambda>s. s @ [CHR 0x0A]) texts)) =
      ([] @ s) # linesOf [] (concat (map (\<lambda>s. s @ [CHR 0x0A]) texts))"
    by (intro linesOf_line) simp
  with Cons show ?case by simp
qed

lemmas load_defs = LoadMetricsData_def loadImages_def loadNodes_def loadInsights_def
  loadLeases_def loadBuilds_def loadPods_def loadEvents_def loadTable_def tableCreate_def
  inserterPut_def Let_def

lemmas export_defs = exportCategories_def exportTable_def osCreate_def encoderEncode_def
  fileWrite_def Let_def

text \<open>
  C6.  For a document whose seven sequences are all empty, \<open>LoadMetricsData\<close> returns nil
  without a single call on the warehouse, and the per-category part of the export returns
  nil without a single call on the file system.  The whole of \<open>ExportMetricsFromGCS\<close>, once
  it has read and decoded such a document and made the directory, returns nil having made
  no other call than that \<^verbatim>\<open>MkdirAll\<close>: no file is created and nothing is written.
\<close>

theorem empty_document_no_calls:
  assumes "Images data = []" and "Nodes data = []" and "TestPlatformInsights data = []"
    and "Leases data = []" and "OpenshiftBuilds data = []" and "Pods data = []"
    and "Events data = []"
  shows "LoadMetricsData b data h = (None, h)
       \<and> exportCategories rt dir data fs = (None, fs)
       \<and> (storageNewClient rt = None \<and> storageNewReader rt bucket object = Inr reader
            \<and> jsonDecode rt reader = Inr data \<and> osCall rt fs (MkdirAll dir) = None
          \<longrightarrow> ExportMetricsFromGCS rt bucket object dir fs =
                (None, fs\<lparr>fsLog := fsLog fs @ [(MkdirAll dir, None)]\<rparr>))"
proof -
  have load: "LoadMetricsData b data h = (None, h)" for h
    using assms by (simp add: load_defs)
  have cats: "exportCategories rt dir data fs = (None, fs)" for fs
    using assms by (simp add: exportCategories_def)
  have "ExportMetricsFromGCS rt bucket object dir fs =
      (None, fs\<lparr>fsLog := fsLog fs @ [(MkdirAll dir, None)]\<rparr>)"
    if "storageNewClient rt = None" and "storageNewReader rt bucket object = Inr reader"
      and "jsonDecode rt reader = Inr data" and "osCall rt fs (MkdirAll dir) = None"
    using that by (simp add: ExportMetricsFromGCS_def osMkdirAll_def Let_def cats)
  with load cats show ?thesis by blast
qed

theorem empty_document_no_calls_witness:
  "LoadMetricsData exLoader emptyDoc [] = (None, [])
   \<and> exportCategories exRuntime ''out'' emptyDoc emptyFs = (None, emptyFs)
   \<and> ExportMetricsFromGCS exRuntime ''bucket'' ''ci-operator-metrics.json'' ''out'' emptyFs =
       (None, \<lparr>files = Map.empty, fsLog = [(MkdirAll ''out'', None)]\<rparr>)"
proof -
  have fetch: "storageNewClient exRuntime = None
      \<and> storageNewReader exRuntime ''bucket'' ''ci-operator-metrics.json'' = Inr ''{}''
      \<and> jsonDecode exRuntime ''{}'' = Inr emptyDoc
      \<and> osCall exRuntime emptyFs (MkdirAll ''out'') = None"
    by (simp add: exRuntime_def)
  have "Images emptyDoc = []" "Nodes emptyDoc = []" "TestPlatformInsights emptyDoc = []"
    "Leases emptyDoc = []" "OpenshiftBuilds emptyDoc = []" "Pods emptyDoc = []"
    "Events emptyDoc = []"
    by (simp_all add: emptyDoc_def)
  from empty_document_no_calls [OF this, of exLoader "[]" exRuntime "''out''" emptyFs
      "''bucket''" "''ci-operator-metrics.json''" "''{}''"] fetch
  show ?thesis by (simp add: emptyFs_def)
qed

lemma ExportMetricsFromGCS_success:
  assumes "ExportMetricsFromGCS rt bucket object dir fs = (None, fs')"
  shows "\<exists>reader data fsm. storageNewReader rt bucket object = Inr reader
           \<and> jsonDecode rt reader = Inr data \<and> files fsm = files fs
           \<and> exportCategories rt dir data fsm = (None, fs')"
proof -
  from assms obtain reader where rd: "storageNewReader rt bucket object = Inr reader"
    and nc: "storageNewClient rt = None"
    by (auto simp: ExportMetricsFromGCS_def split: option.splits sum.splits)
  from assms nc rd obtain data where dec: "jsonDecode rt reader = Inr data"
    by (auto simp: ExportMetricsFromGCS_def split: sum.splits)
  obtain r1 fsm where mk: "osMkdirAll rt dir fs = (r1, fsm)"
    by (cases "osMkdirAll rt dir fs")
  then have same: "files fsm = files fs"
    by (auto simp: osMkdirAll_def Let_def)
  from assms nc rd dec mk have "r1 = None"
    by (cases r1) (simp_all add: ExportMetricsFromGCS_def)
  with assms nc rd dec mk have "exportCategories rt dir data fsm = (None, fs')"
    by (simp add: ExportMetricsFromGCS_def)
  with rd dec same show ?thesis by blast
qed

lemma exportCategories_files:
  "exportCategories rt dir data fs = (None, fs') \<Longrightarrow>
     files fs' = writtenFiles rt dir data exportOrder (files fs)"
  using exportAll_success [of rt dir data exportOrder fs fs']
  by (simp add: exportCategories_exportAll)

text \<open>
  C10.  When the export of a document into a directory succeeds and is run again on the
  file system it left, and succeeds again, every file holds after the second run what it
  held after the first: a file written by \<open>exportTable\<close> holds exactly the lines of its
  records, whatever it held before, since \<^verbatim>\<open>os.Create\<close> truncates it.  A second
  successful pass of the warehouse sink, by contrast, makes all the calls of the first
  again, the writes included.
\<close>

theorem export_twice_same_files:
  "(exportCategories rt dir data fs = (None, fs1)
      \<and> exportCategories rt dir data fs1 = (None, fs2) \<longrightarrow> files fs2 = files fs1)
   \<and> (ExportMetricsFromGCS rt bucket object dir gs = (None, gs1)
      \<and> ExportMetricsFromGCS rt bucket object dir gs1 = (None, gs2) \<longrightarrow> files gs2 = files gs1)
   \<and> (exportTable rt dir filename rws ts = (None, ts1) \<longrightarrow>
        files ts1 (filepathJoin rt dir filename) = Some (concat (rowsLines rt rws)))
   \<and> (LoadMetricsData b data h = (None, h1) \<and> LoadMetricsData b data h1 = (None, h2) \<longrightarrow>
        map fst (drop (length h1) h2) = map fst (drop (length h) h1))"
proof -
  have cats: "files fs2 = files fs1"
    if "exportCategories rt dir data fs = (None, fs1)"
      and "exportCategories rt dir data fs1 = (None, fs2)" for data fs fs1 fs2
  proof -
    from that have "files fs1 = writtenFiles rt dir data exportOrder (files fs)"
      and "files fs2 = writtenFiles rt dir data exportOrder (files fs1)"
      by (simp_all add: exportCategories_files)
    then show ?thesis by (simp add: writtenFiles_idem)
  qed
  have whole: "files gs2 = files gs1"
    if one: "ExportMetricsFromGCS rt bucket object dir gs = (None, gs1)"
      and two: "ExportMetricsFromGCS rt bucket object dir gs1 = (None, gs2)"
  proof -
    from ExportMetricsFromGCS_success [OF one] obtain reader data fsm where
      a: "storageNewReader rt bucket object = Inr reader" "jsonDecode rt reader = Inr data"
        "files fsm = files gs" "exportCategories rt dir data fsm = (None, gs1)"
      by blast
    from ExportMetricsFromGCS_success [OF two] a(1,2) obtain fsn where
      b: "files fsn = files gs1" "exportCategories rt dir data fsn = (None, gs2)"
      by auto
    from a(4) have "files gs1 = writtenFiles rt dir data exportOrder (files fsm)"
      by (rule exportCategories_files)
    moreover from b(2) have "files gs2 = writtenFiles rt dir data exportOrder (files fsn)"
      by (rule exportCategories_files)
    ultimately show ?thesis using b(1) by (simp add: writtenFiles_idem)
  qed
  have table: "files ts1 (filepathJoin rt dir filename) = Some (concat (rowsLines rt rws))"
    if "exportTable rt dir filename rws ts = (None, ts1)"
    using exportTable_success [OF that] by simp
  have load: "map fst (drop (length h1) h2) = map fst (drop (length h) h1)"
    if one: "LoadMetricsData b data h = (None, h1)"
      and two: "LoadMetricsData b data h1 = (None, h2)"
  proof -
    from one obtain new1 where "h1 = h @ new1" "map fst new1 = expectedCalls data loadOrder"
      using loadCategories_success [of b data loadOrder h h1]
      by (auto simp: LoadMetricsData_loadCategories)
    moreover from two obtain new2 where "h2 = h1 @ new2"
      "map fst new2 = expectedCalls data loadOrder"
      using loadCategories_success [of b data loadOrder h1 h2]
      by (auto simp: LoadMetricsData_loadCategories)
    ultimately show ?thesis by simp
  qed
  from cats whole table load show ?thesis by blast
qed

lemmas ex_defs = exRuntime_def exDoc2_def emptyFs_def exLease_def marshalLease_def
  omitempty_def emptyString_def emptyFloat_def emptyInt_def emptyBool_def

theorem export_twice_same_files_witness:
  "fst (exportCategories exRuntime ''out'' exDoc2 emptyFs) = None
   \<and> fst (exportCategories exRuntime ''out'' exDoc2
          (snd (exportCategories exRuntime ''out'' exDoc2 emptyFs))) = None
   \<and> files (snd (exportCategories exRuntime ''out'' exDoc2
          (snd (exportCategories exRuntime ''out'' exDoc2 emptyFs))))
       = files (snd (exportCategories exRuntime ''out'' exDoc2 emptyFs))
   \<and> files (snd (exportCategories exRuntime ''out'' exDoc2 emptyFs)) ''out/pods.json''
       = Some (''pod-a'' @ [CHR 0x0A] @ ''pod-b'' @ [CHR 0x0A])
   \<and> fst (ExportMetricsFromGCS exRuntime ''bucket'' ''ci-operator-metrics.json'' ''out'' staleFs)
       = None
   \<and> fst (ExportMetricsFromGCS exRuntime ''bucket'' ''ci-operator-metrics.json'' ''out''
          (snd (ExportMetricsFromGCS exRuntime ''bucket'' ''ci-operator-metrics.json'' ''out''
             staleFs))) = None
   \<and> fst (exportTable exRuntime ''out'' ''pods.json'' (PodRows [''pod-a'']) staleFs) = None
   \<and> files (snd (exportTable exRuntime ''out'' ''pods.json'' (PodRows [''pod-a'']) staleFs))
         ''out/pods.json'' = Some (''pod-a'' @ [CHR 0x0A])
   \<and> fst (LoadMetricsData exOkLoader exDoc2 []) = None
   \<and> fst (LoadMetricsData exOkLoader exDoc2 (snd (LoadMetricsData exOkLoader exDoc2 []))) = None"
proof -
  let ?fs1 = "snd (exportCategories exRuntime ''out'' exDoc2 emptyFs)"
  let ?fs2 = "snd (exportCategories exRuntime ''out'' exDoc2 ?fs1)"
  let ?gs1 = "snd (ExportMetricsFromGCS exRuntime ''bucket'' ''ci-operator-metrics.json''
      ''out'' staleFs)"
  let ?gs2 = "snd (ExportMetricsFromGCS exRuntime ''bucket'' ''ci-operator-metrics.json''
      ''out'' ?gs1)"
  let ?ts1 = "snd (exportTable exRuntime ''out'' ''pods.json'' (PodRows [''pod-a'']) staleFs)"
  let ?h1 = "snd (LoadMetricsData exOkLoader exDoc2 [])"
  let ?h2 = "snd (LoadMetricsData exOkLoader exDoc2 ?h1)"
  have cats: "fst (exportCategories exRuntime ''out'' exDoc2 fs) = None" for fs
    by (simp add: export_defs ex_defs)
  have whole: "fst (ExportMetricsFromGCS exRuntime ''bucket'' ''ci-operator-metrics.json''
      ''out'' fs) = None" for fs
    by (simp add: ExportMetricsFromGCS_def osMkdirAll_def exportCategories_def exRuntime_def
        emptyDoc_def Let_def)
  have table: "fst (exportTable exRuntime ''out'' ''pods.json'' (PodRows [''pod-a'']) staleFs)
      = None"
    by (simp add: export_defs exRuntime_def)
  have load: "fst (LoadMetricsData exOkLoader exDoc2 h) = None" for h
    by (simp add: load_defs exOkLoader_def exDoc2_def)
  have c1: "exportCategories exRuntime ''out'' exDoc2 emptyFs = (None, ?fs1)"
    and c2: "exportCategories exRuntime ''out'' exDoc2 ?fs1 = (None, ?fs2)"
    using cats by (simp_all add: prod_eq_iff)
  have w1: "ExportMetricsFromGCS exRuntime ''bucket'' ''ci-operator-metrics.json'' ''out''
      staleFs = (None, ?gs1)"
    and w2: "ExportMetricsFromGCS exRuntime ''bucket'' ''ci-operator-metrics.json'' ''out''
      ?gs1 = (None, ?gs2)"
    using whole by (simp_all add: prod_eq_iff)
  have t1: "exportTable exRuntime ''out'' ''pods.json'' (PodRows [''pod-a'']) staleFs
      = (None, ?ts1)"
    using table by (simp add: prod_eq_iff)
  have l1: "LoadMetricsData exOkLoader exDoc2 [] = (None, ?h1)"
    and l2: "LoadMetricsData exOkLoader exDoc2 ?h1 = (None, ?h2)"
    using load by (simp_all add: prod_eq_iff)
  note inst = export_twice_same_files [of exRuntime "''out''" exDoc2 emptyFs ?fs1 ?fs2
      "''bucket''" "''ci-operator-metrics.json''" staleFs ?gs1 ?gs2
      "''pods.json''" "PodRows [''pod-a'']" staleFs ?ts1 exOkLoader "[]" ?h1 ?h2]
  note same = inst [THEN conjunct1, THEN mp, OF conjI [OF c1 c2]]
  note same_whole = inst [THEN conjunct2, THEN conjunct1, THEN mp, OF conjI [OF w1 w2]]
  note truncated = inst [THEN conjunct2, THEN conjunct2, THEN conjunct1, THEN mp, OF t1]
  note again = inst [THEN conjunct2, THEN conjunct2, THEN conjunct2, THEN mp, OF conjI [OF l1 l2]]
  have pods: "files ?fs1 ''out/pods.json'' = Some (''pod-a'' @ [CHR 0x0A] @ ''pod-b'' @ [CHR 0x0A])"
    by (simp add: export_defs ex_defs)
  have trunc: "files ?ts1 ''out/pods.json'' = Some (''pod-a'' @ [CHR 0x0A])"
    using truncated by (simp add: rowsLines_def exRuntime_def)
  from cats whole table load same pods trunc show ?thesis by simp
qed

lemma categoryFileCalls_expected:
  "c \<in> set cs \<Longrightarrow> nonEmpty data c \<Longrightarrow>
     set (categoryFileCalls rt dir data c) \<subseteq> set (expectedFileCalls rt dir data cs)"
  by (auto simp: expectedFileCalls_def)

text \<open>
  C7.  When a document holds exactly one lease record, on which the release-side fields
  (release duration, leases available at release) are unset, a successful export writes
  to \<^verbatim>\<open>leases.json\<close> the text of the serialized record followed by a newline, and the
  serialized record has neither a \<^verbatim>\<open>release_duration_seconds\<close> nor a
  \<^verbatim>\<open>leases_available_at_release\<close> member.
\<close>

theorem lease_export_omits_release_fields:
  assumes lease: "Leases data = [l]"
    and unset: "ReleaseDurationSeconds l = 0" "LeasesAvailableAtRelease l = 0"
    and run: "exportCategories rt dir data fs = (None, fs')"
  shows "(\<exists>s. jsonText rt (marshalLease l) = Inr s
            \<and> (Write (filepathJoin rt dir ''leases.json'') (s @ [CHR 0x0A]), None)
                 \<in> set (fsLog fs'))
       \<and> ''release_duration_seconds'' \<notin> set (objectKeys (marshalLease l))
       \<and> ''leases_available_at_release'' \<notin> set (objectKeys (marshalLease l))"
proof -
  from run have all: "exportAll rt dir data exportOrder fs = (None, fs')"
    by (simp add: exportCategories_exportAll)
  note facts = exportAll_success [OF all]
  have ne: "nonEmpty data CatLeases" using lease by (simp add: nonEmpty_def)
  have mem: "CatLeases \<in> set exportOrder" by (simp add: exportOrder_def)
  from facts [THEN conjunct2, THEN conjunct2] ne mem
  have "list_all (\<lambda>r. \<not> isl r) (rowsMarshal rt (catRows data CatLeases))"
    by (auto simp: list_all_iff)
  with lease obtain s where s: "jsonText rt (marshalLease l) = Inr s"
    by (cases "jsonText rt (marshalLease l)") simp_all
  with lease have "Write (filepathJoin rt dir ''leases.json'') (s @ [CHR 0x0A])
      \<in> set (categoryFileCalls rt dir data CatLeases)"
    by (simp add: categoryFileCalls_def exportPath_def rowsLines_def)
  with categoryFileCalls_expected [OF mem ne]
  have "Write (filepathJoin rt dir ''leases.json'') (s @ [CHR 0x0A])
      \<in> set (expectedFileCalls rt dir data exportOrder)"
    by blast
  with facts [THEN conjunct2, THEN conjunct1]
  have "(Write (filepathJoin rt dir ''leases.json'') (s @ [CHR 0x0A]), None) \<in> set (fsLog fs')"
    by auto
  with s unset show ?thesis by (auto simp: lease_key_mem)
qed

theorem lease_export_omits_release_fields_witness:
  "Leases exDoc2 = [exLease]
   \<and> ReleaseDurationSeconds exLease = 0 \<and> LeasesAvailableAtRelease exLease = 0
   \<and> fst (exportCategories exRuntime ''out'' exDoc2 emptyFs) = None
   \<and> objectKeys (marshalLease exLease) =
       [''name'', ''slice'', ''region'', ''raw_lease_name'', ''acquisition_duration_seconds'',
        ''leases_remaining_at_acquisition'', ''leases_total'', ''timestamp'']
   \<and> ''release_duration_seconds'' \<notin> set (objectKeys (marshalLease exLease))
   \<and> ''leases_available_at_release'' \<notin> set (objectKeys (marshalLease exLease))"
proof -
  let ?fs1 = "snd (exportCategories exRuntime ''out'' exDoc2 emptyFs)"
  have lease: "Leases exDoc2 = [exLease]" by (simp add: exDoc2_def)
  have unset: "ReleaseDurationSeconds exLease = 0" "LeasesAvailableAtRelease exLease = 0"
    by (simp_all add: exLease_def)
  have ok: "fst (exportCategories exRuntime ''out'' exDoc2 emptyFs) = None"
    by (simp add: export_defs ex_defs)
  then have run: "exportCategories exRuntime ''out'' exDoc2 emptyFs = (None, ?fs1)"
    by (simp add: prod_eq_iff)
  have keys: "objectKeys (marshalLease exLease) =
       [''name'', ''slice'', ''region'', ''raw_lease_name'', ''acquisition_duration_seconds'',
        ''leases_remaining_at_acquisition'', ''leases_total'', ''timestamp'']"
    by (simp add: ex_defs)
  from lease_export_omits_release_fields [OF lease unset run] lease unset ok keys
  show ?thesis by blast
qed

lemma writtenFiles_other:
  "list_all (\<lambda>c. nonEmpty data c \<longrightarrow> exportPath rt dir c \<noteq> k) cs \<Longrightarrow>
     writtenFiles rt dir data cs m k = m k"
  by (induction cs arbitrary: m) auto

lemma writtenFiles_append:
  "writtenFiles rt dir data (pre @ cs) m =
     writtenFiles rt dir data cs (writtenFiles rt dir data pre m)"
  by (induction pre arbitrary: m) auto

text \<open>
  C8 (as amended).  When a document holds \<open>N \<ge> 1\<close> pod records and its export succeeds,
  \<^verbatim>\<open>pods.json\<close> holds exactly \<open>N\<close> lines, the \<open>i\<close>-th being the JSON text of the \<open>i\<close>-th record
  followed by a newline.  So reading it as newline-delimited JSON, with a decoder that
  gives back each of these records from its text (texts that hold no newline), yields the
  \<open>N\<close> records in their order.  Here \<^verbatim>\<open>filepath.Join\<close> is taken to give the two files
  written after \<^verbatim>\<open>pods.json\<close> paths other than its own.
\<close>

theorem pods_export_roundtrip:
  assumes run: "exportCategories rt dir data fs = (None, fs')"
    and some: "Pods data \<noteq> []"
    and codec: "\<forall>p\<in>set (Pods data). \<forall>s. marshalPod rt p = Inr s \<longrightarrow>
                  CHR 0x0A \<notin> set s \<and> dec s = Some p"
    and later: "filepathJoin rt dir ''test_platform_insights.json''
                  \<noteq> filepathJoin rt dir ''pods.json''"
               "filepathJoin rt dir ''events.json'' \<noteq> filepathJoin rt dir ''pods.json''"
  shows "\<exists>content. files fs' (filepathJoin rt dir ''pods.json'') = Some content
           \<and> length (linesOf [] content) = length (Pods data)
           \<and> decodeNDJSON dec content = map Some (Pods data)"
proof -
  let ?P = "filepathJoin rt dir ''pods.json''"
  let ?texts = "map (\<lambda>p. projr (marshalPod rt p)) (Pods data)"
  let ?content = "concat (map (\<lambda>s. s @ [CHR 0x0A]) ?texts)"
  from run have all: "exportAll rt dir data exportOrder fs = (None, fs')"
    by (simp add: exportCategories_exportAll)
  note facts = exportAll_success [OF all]
  have ne: "nonEmpty data CatPods" using some by (simp add: nonEmpty_def)
  have order: "exportOrder = [CatImages, CatNodes, CatLeases, CatBuilds] @ CatPods
      # [CatInsights, CatEvents]"
    by (simp add: exportOrder_def)
  have "files fs' ?P = writtenFiles rt dir data [CatInsights, CatEvents]
      (writtenFiles rt dir data [CatPods]
        (writtenFiles rt dir data [CatImages, CatNodes, CatLeases, CatBuilds] (files fs))) ?P"
    unfolding facts [THEN conjunct1] order writtenFiles_append
    using writtenFiles_append [of rt dir data "[CatPods]" "[CatInsights, CatEvents]"] by simp
  also have "\<dots> = writtenFiles rt dir data [CatPods]
        (writtenFiles rt dir data [CatImages, CatNodes, CatLeases, CatBuilds] (files fs)) ?P"
    using later by (intro writtenFiles_other) (simp add: exportPath_def)
  also have "\<dots> = Some (concat (rowsLines rt (PodRows (Pods data))))"
    using ne by (simp add: exportPath_def)
  finally have at: "files fs' ?P = Some (concat (rowsLines rt (PodRows (Pods data))))" .
  have "CatPods \<in> set exportOrder" by (simp add: exportOrder_def)
  with facts [THEN conjunct2, THEN conjunct2] ne
  have "list_all (\<lambda>r. \<not> isl r) (rowsMarshal rt (catRows data CatPods))"
    by (auto simp: list_all_iff)
  then have inr: "\<forall>p\<in>set (Pods data). marshalPod rt p = Inr (projr (marshalPod rt p))"
    by (auto simp: list_all_iff)
  then have lines: "rowsLines rt (PodRows (Pods data)) = map (\<lambda>s. s @ [CHR 0x0A]) ?texts"
    by (auto simp: rowsLines_def) (metis itemLine.simps(1))
  from inr codec have clean: "list_all (\<lambda>s. CHR 0x0A \<notin> set s) ?texts"
    by (auto simp: list_all_iff)
  from inr codec have decoded: "map dec ?texts = map Some (Pods data)"
    by auto
  have cut: "linesOf [] ?content = ?texts"
    using clean by (rule linesOf_concat)
  have "files fs' ?P = Some ?content" using at lines by simp
  moreover have "length (linesOf [] ?content) = length (Pods data)"
    unfolding cut by simp
  moreover have "decodeNDJSON dec ?content = map Some (Pods data)"
    unfolding decodeNDJSON_def cut by (rule decoded)
  ultimately show ?thesis by blast
qed

theorem pods_export_roundtrip_witness:
  "fst (exportCategories exRuntime ''out'' exDoc2 emptyFs) = None
   \<and> Pods exDoc2 = [''pod-a'', ''pod-b'']
   \<and> filepathJoin exRuntime ''out'' ''test_platform_insights.json''
        \<noteq> filepathJoin exRuntime ''out'' ''pods.json''
   \<and> filepathJoin exRuntime ''out'' ''events.json'' \<noteq> filepathJoin exRuntime ''out'' ''pods.json''
   \<and> files (snd (exportCategories exRuntime ''out'' exDoc2 emptyFs)) ''out/pods.json''
       = Some (''pod-a'' @ [CHR 0x0A] @ ''pod-b'' @ [CHR 0x0A])
   \<and> decodeNDJSON Some (''pod-a'' @ [CHR 0x0A] @ ''pod-b'' @ [CHR 0x0A])
       = [Some ''pod-a'', Some ''pod-b'']"
proof -
  let ?fs1 = "snd (exportCategories exRuntime ''out'' exDoc2 emptyFs)"
  have ok: "fst (exportCategories exRuntime ''out'' exDoc2 emptyFs) = None"
    by (simp add: export_defs ex_defs)
  then have run: "exportCategories exRuntime ''out'' exDoc2 emptyFs = (None, ?fs1)"
    by (simp add: prod_eq_iff)
  have pods: "Pods exDoc2 = [''pod-a'', ''pod-b'']" by (simp add: exDoc2_def)
  then have some: "Pods exDoc2 \<noteq> []" by simp
  have codec: "\<forall>p\<in>set (Pods exDoc2). \<forall>s. marshalPod exRuntime p = Inr s \<longrightarrow>
      CHR 0x0A \<notin> set s \<and> Some s = Some p"
    by (simp add: exDoc2_def exRuntime_def)
  have later: "filepathJoin exRuntime ''out'' ''test_platform_insights.json''
        \<noteq> filepathJoin exRuntime ''out'' ''pods.json''"
    "filepathJoin exRuntime ''out'' ''events.json'' \<noteq> filepathJoin exRuntime ''out'' ''pods.json''"
    by (simp_all add: exRuntime_def)
  have path: "filepathJoin exRuntime ''out'' ''pods.json'' = ''out/pods.json''"
    by (simp add: exRuntime_def)
  from pods_export_roundtrip [OF run some codec later] obtain content where
    c: "files ?fs1 ''out/pods.json'' = Some content"
      "decodeNDJSON Some content = map Some (Pods exDoc2)"
    unfolding path by blast
  have at: "files ?fs1 ''out/pods.json'' = Some (''pod-a'' @ [CHR 0x0A] @ ''pod-b'' @ [CHR 0x0A])"
    by (simp add: export_defs ex_defs)
  with c have "decodeNDJSON Some (''pod-a'' @ [CHR 0x0A] @ ''pod-b'' @ [CHR 0x0A])
       = [Some ''pod-a'', Some ''pod-b'']"
    using pods by simp
  with ok pods later at show ?thesis by blast
qed

text \<open>
  C8 as stated fails for \<open>N = 0\<close>: the export of a document without pod records succeeds
  and writes no \<^verbatim>\<open>pods.json\<close>.  In an empty directory there is no such file to decode;
  in a directory holding one from an earlier export, the file is left as it was and
  decodes to the one record it held, not to none.
\<close>

theorem empty_pods_no_file_written:
  "Pods exDoc = []
   \<and> fst (exportCategories exRuntime ''out'' exDoc emptyFs) = None
   \<and> files (snd (exportCategories exRuntime ''out'' exDoc emptyFs)) ''out/pods.json'' = None
   \<and> fst (exportCategories exRuntime ''out'' exDoc staleFs) = None
   \<and> files (snd (exportCategories exRuntime ''out'' exDoc staleFs)) ''out/pods.json''
       = Some (''old-pod'' @ [CHR 0x0A])
   \<and> decodeNDJSON Some (''old-pod'' @ [CHR 0x0A]) = [Some ''old-pod'']"
proof -
  note defs = export_defs exRuntime_def exDoc_def emptyFs_def staleFs_def exLease_def
    zeroImage_def marshalLease_def marshalImage_def omitempty_def emptyString_def
    emptyFloat_def emptyInt_def emptyBool_def emptyMap_def emptyStruct_def
  have "Pods exDoc = []" by (simp add: exDoc_def)
  moreover have "fst (exportCategories exRuntime ''out'' exDoc fs) = None" for fs
    by (simp add: defs)
  moreover have "files (snd (exportCategories exRuntime ''out'' exDoc emptyFs)) ''out/pods.json''
      = None"
    by (simp add: defs)
  moreover have "files (snd (exportCategories exRuntime ''out'' exDoc staleFs)) ''out/pods.json''
       = Some (''old-pod'' @ [CHR 0x0A])"
    by (simp add: defs)
  moreover have "decodeNDJSON Some (''old-pod'' @ [CHR 0x0A]) = [Some ''old-pod'']"
    by (simp add: decodeNDJSON_def)
  ultimately show ?thesis by blast
qed

subsection \<open>The two sinks compared\<close>

lemma createdTables_append:
  "createdTables (xs @ ys) = createdTables xs @ createdTables ys"
  by (induction xs rule: createdTables.induct) auto

lemma createdTables_expectedCalls:
  "createdTables (expectedCalls data cs) = map destName (filter (nonEmpty data) cs)"
  by (induction cs) (auto simp: expectedCalls_def categoryCalls_def)

lemma createdFiles_append:
  "createdFiles (xs @ ys) = createdFiles xs @ createdFiles ys"
  by (induction xs rule: createdFiles.induct) auto

lemma createdFiles_writes: "createdFiles (map (Write path) lines) = []"
  by (induction lines) auto

lemma createdFiles_expectedFileCalls:
  "createdFiles (expectedFileCalls rt dir data cs) =
     map (exportPath rt dir) (filter (nonEmpty data) cs)"
  by (induction cs)
    (auto simp: expectedFileCalls_def categoryFileCalls_def createdFiles_append
      createdFiles_writes)

text \<open>
  C1 (as amended).  Both sinks take the same document and run one and the same
  per-category step over all seven categories, reading the records of a category from the
  same field and naming its destination alike: the table is the destination name, the file
  the destination name followed by \<^verbatim>\<open>.json\<close>.  They do not go through the categories in
  the same order: \<open>LoadMetricsData\<close> takes images, nodes, insights, leases, builds, pods,
  events, the export takes images, nodes, leases, builds, pods, insights, events.  On a
  pass that returns nil, the tables created are the destinations of the non-empty
  categories in the first order, the files created those in the second.
\<close>

theorem sinks_same_mapping_own_order:
  "LoadMetricsData b data h = loadCategories b data loadOrder h
   \<and> exportCategories rt dir data fs = exportAll rt dir data exportOrder fs
   \<and> loadOrder = [CatImages, CatNodes, CatInsights, CatLeases, CatBuilds, CatPods, CatEvents]
   \<and> exportOrder = [CatImages, CatNodes, CatLeases, CatBuilds, CatPods, CatInsights, CatEvents]
   \<and> set loadOrder = UNIV \<and> set exportOrder = UNIV
   \<and> (LoadMetricsData b data h = (None, h') \<longrightarrow>
        createdTables (map fst (drop (length h) h'))
          = map destName (filter (nonEmpty data) loadOrder))
   \<and> (exportCategories rt dir data fs = (None, fs') \<longrightarrow>
        createdFiles (map fst (drop (length (fsLog fs)) (fsLog fs')))
          = map (\<lambda>c. filepathJoin rt dir (destName c @ ''.json''))
              (filter (nonEmpty data) exportOrder))"
proof -
  have all: "set loadOrder = UNIV" "set exportOrder = UNIV"
  proof -
    have "c \<in> set loadOrder" "c \<in> set exportOrder" for c
      by (cases c; simp add: loadOrder_def exportOrder_def)+
    then show "set loadOrder = UNIV" "set exportOrder = UNIV" by auto
  qed
  have tables: "createdTables (map fst (drop (length h) h'))
      = map destName (filter (nonEmpty data) loadOrder)"
    if "LoadMetricsData b data h = (None, h')"
  proof -
    from that obtain new where "h' = h @ new" "map fst new = expectedCalls data loadOrder"
      using loadCategories_success [of b data loadOrder h h']
      by (auto simp: LoadMetricsData_loadCategories)
    then show ?thesis by (simp add: createdTables_expectedCalls)
  qed
  have created: "createdFiles (map fst (drop (length (fsLog fs)) (fsLog fs')))
      = map (\<lambda>c. filepathJoin rt dir (destName c @ ''.json''))
          (filter (nonEmpty data) exportOrder)"
    if "exportCategories rt dir data fs = (None, fs')"
  proof -
    from that have "exportAll rt dir data exportOrder fs = (None, fs')"
      by (simp add: exportCategories_exportAll)
    from exportAll_success [OF this]
    have "fsLog fs' = fsLog fs
        @ map (\<lambda>call. (call, None)) (expectedFileCalls rt dir data exportOrder)"
      by blast
    then have "map fst (drop (length (fsLog fs)) (fsLog fs'))
        = expectedFileCalls rt dir data exportOrder"
      by (simp add: comp_def)
    then show ?thesis
      by (simp add: createdFiles_expectedFileCalls exportPath_def [abs_def])
  qed
  from all tables created show ?thesis
    by (simp add: LoadMetricsData_loadCategories exportCategories_exportAll)
      (simp add: loadOrder_def exportOrder_def)
qed

theorem sinks_same_mapping_own_order_witness:
  "fst (LoadMetricsData exOkLoader exDoc2 []) = None
   \<and> fst (exportCategories exRuntime ''out'' exDoc2 emptyFs) = None
   \<and> createdTables (map fst (snd (LoadMetricsData exOkLoader exDoc2 [])))
       = map destName (filter (nonEmpty exDoc2) loadOrder)
   \<and> createdFiles (map fst (drop (length (fsLog emptyFs))
         (fsLog (snd (exportCategories exRuntime ''out'' exDoc2 emptyFs)))))
       = map (\<lambda>c. filepathJoin exRuntime ''out'' (destName c @ ''.json''))
           (filter (nonEmpty exDoc2) exportOrder)
   \<and> map destName (filter (nonEmpty exDoc2) loadOrder)
       = [''test_platform_insights'', ''leases'', ''pods'', ''events'']
   \<and> map (\<lambda>c. filepathJoin exRuntime ''out'' (destName c @ ''.json''))
         (filter (nonEmpty exDoc2) exportOrder)
       = [''out/leases.json'', ''out/pods.json'', ''out/test_platform_insights.json'',
          ''out/events.json'']"
proof -
  let ?h1 = "snd (LoadMetricsData exOkLoader exDoc2 [])"
  let ?fs1 = "snd (exportCategories exRuntime ''out'' exDoc2 emptyFs)"
  have load: "fst (LoadMetricsData exOkLoader exDoc2 []) = None"
    by (simp add: load_defs exOkLoader_def exDoc2_def)
  then have l1: "LoadMetricsData exOkLoader exDoc2 [] = (None, ?h1)"
    by (simp add: prod_eq_iff)
  have cats: "fst (exportCategories exRuntime ''out'' exDoc2 emptyFs) = None"
    by (simp add: export_defs ex_defs)
  then have c1: "exportCategories exRuntime ''out'' exDoc2 emptyFs = (None, ?fs1)"
    by (simp add: prod_eq_iff)
  note inst = sinks_same_mapping_own_order [of exOkLoader exDoc2 "[]" exRuntime "''out''"
      emptyFs ?h1 ?fs1]
  note tables = inst [THEN conjunct2, THEN conjunct2, THEN conjunct2, THEN conjunct2,
      THEN conjunct2, THEN conjunct2, THEN conjunct1, THEN mp, OF l1]
  note created = inst [THEN conjunct2, THEN conjunct2, THEN conjunct2, THEN conjunct2,
      THEN conjunct2, THEN conjunct2, THEN conjunct2, THEN mp, OF c1]
  from tables have tables':
    "createdTables (map fst (snd (LoadMetricsData exOkLoader exDoc2 [])))
       = map destName (filter (nonEmpty exDoc2) loadOrder)"
    by simp
  have names: "map destName (filter (nonEmpty exDoc2) loadOrder)
       = [''test_platform_insights'', ''leases'', ''pods'', ''events'']"
    by (simp add: loadOrder_def nonEmpty_def exDoc2_def)
  have paths: "map (\<lambda>c. filepathJoin exRuntime ''out'' (destName c @ ''.json''))
         (filter (nonEmpty exDoc2) exportOrder)
       = [''out/leases.json'', ''out/pods.json'', ''out/test_platform_insights.json'',
          ''out/events.json'']"
    by (simp add: exportOrder_def nonEmpty_def exDoc2_def exRuntime_def)
  show ?thesis by (intro conjI load cats tables' created names paths)
qed

text \<open>
  C1 as stated fails: on a document with leases, pods, insights and events, the warehouse
  sink creates the insights table before that of leases, and the export creates the file
  of insights after those of leases and pods.
\<close>

theorem sinks_order_differs:
  "createdTables (map fst (snd (LoadMetricsData exOkLoader exDoc2 [])))
     = [''test_platform_insights'', ''leases'', ''pods'', ''events'']
   \<and> createdFiles (map fst (fsLog (snd (exportCategories exRuntime ''out'' exDoc2 emptyFs))))
     = [''out/leases.json'', ''out/pods.json'', ''out/test_platform_insights.json'',
        ''out/events.json'']
   \<and> loadOrder \<noteq> exportOrder"
proof -
  have "createdTables (map fst (snd (LoadMetricsData exOkLoader exDoc2 [])))
     = [''test_platform_insights'', ''leases'', ''pods'', ''events'']"
    by (simp add: load_defs exOkLoader_def exDoc2_def)
  moreover have
    "createdFiles (map fst (fsLog (snd (exportCategories exRuntime ''out'' exDoc2 emptyFs))))
     = [''out/leases.json'', ''out/pods.json'', ''out/test_platform_insights.json'',
        ''out/events.json'']"
    by (simp add: export_defs ex_defs)
  moreover have "loadOrder \<noteq> exportOrder"
    by (simp add: loadOrder_def exportOrder_def)
  ultimately show ?thesis by blast
qed

end
